theory Spec2Isabelle
  imports Complex_Main "HOL-Library.Word"
begin

section \<open>Altitude estimation and altitude hold (src/main/flight/altitude.c)\<close>

text \<open>
  The embedding follows \<^verbatim>\<open>altitude.c\<close> function by function. The file is compiled with
  \<^verbatim>\<open>BARO\<close>, \<^verbatim>\<open>SONAR\<close> and \<^verbatim>\<open>ACC\<close> defined; which sensors are really there is the
  run-time test \<^verbatim>\<open>sensors(...)\<close>.

  Number representations:
  \<^item> \<^verbatim>\<open>uint8_t\<close>, \<^verbatim>\<open>int16_t\<close> and \<^verbatim>\<open>uint32_t\<close> inputs are words of that width, read with
    \<open>uint\<close>, \<open>sint\<close> and \<open>unat\<close> where C promotes them to \<^verbatim>\<open>int\<close>; the time stamps are
    \<open>32 word\<close>, so that their difference wraps as \<^verbatim>\<open>uint32_t\<close> does;
  \<^item> \<^verbatim>\<open>int32_t\<close> values are \<open>int\<close>: signed overflow is undefined in C, and the model
    describes the executions in which none happens;
  \<^item> \<^verbatim>\<open>float\<close> values are \<open>real\<close>. The blend of the ranging stage (lines 242-243),
    whose value the properties state for every input, is computed as the code computes
    it: every operation rounds its exact result to single precision (\<open>fl32\<close>), each on
    its own, without contraction into a fused multiply-add and without excess precision. The
    filters of the accelerometer and velocity stages are computed without rounding;
    their values are stated only at concrete inputs. Infinities, underflow and the
    conversion of an out-of-range \<^verbatim>\<open>float\<close> to an integer (undefined in C) are not
    modelled. The quotient 0/0 of line 242 is a NaN: the division does not trap, and
    what the conversion of a NaN to \<^verbatim>\<open>int32_t\<close> gives is a parameter of the model. The
    integer division by zero of line 268 is a branch of the model.
\<close>

subsection \<open>Helpers of common/maths.h\<close>

text \<open>C's integer division truncates towards zero; HOL's \<open>div\<close> rounds down.\<close>

definition div_trunc :: "int \<Rightarrow> int \<Rightarrow> int" where
  "div_trunc a b = sgn a * sgn b * (\<bar>a\<bar> div \<bar>b\<bar>)"

text \<open>Modelled from the spec: the macro \<^verbatim>\<open>ABS\<close> of common/maths.h is not part of the
  sources at hand; it is the magnitude of its argument.\<close>

definition ABS :: "int \<Rightarrow> int" where
  "ABS x = (if x > 0 then x else - x)"

text \<open>Modelled from the spec: \<^verbatim>\<open>constrain\<close> of common/maths.h is not part of the sources
  at hand; it clamps its first argument to the range given by the other two.\<close>

definition constrain :: "int \<Rightarrow> int \<Rightarrow> int \<Rightarrow> int" where
  "constrain amt low high =
     (if amt < low then low else if amt > high then high else amt)"

text \<open>Modelled from the spec: \<^verbatim>\<open>applyDeadband\<close> of common/maths.h is not part of the
  sources at hand; it suppresses values of small magnitude and subtracts the threshold from
  the magnitude of the others.\<close>

definition applyDeadband :: "int \<Rightarrow> int \<Rightarrow> int" where
  "applyDeadband v deadband =
     (if ABS v < deadband then 0
      else if v > 0 then v - deadband
      else if v < 0 then v + deadband
      else v)"

text \<open>Conversion of a \<^verbatim>\<open>float\<close> to an integer type discards the fraction.\<close>

definition float_to_int :: "real \<Rightarrow> int" where
  "float_to_int x = (if 0 \<le> x then \<lfloor>x\<rfloor> else \<lceil>x\<rceil>)"

text \<open>\<^verbatim>\<open>lrintf\<close> rounds to the nearest integer, a tie to the even one (the default
  rounding mode).\<close>

definition lrintf :: "real \<Rightarrow> int" where
  "lrintf x =
     (let f = \<lfloor>x\<rfloor>; r = x - of_int f
      in if r < 1 / 2 then f
         else if 1 / 2 < r then f + 1
         else if even f then f else f + 1)"

subsection \<open>Single-precision arithmetic\<close>

text \<open>The binade of a nonzero number \<open>x\<close> is the exponent \<open>e\<close> with
  \<open>2 ^ e \<le> \<bar>x\<bar> < 2 ^ (e + 1)\<close>, found by halving or doubling.\<close>

function expo_up :: "real \<Rightarrow> int" where
  "expo_up m = (if 2 \<le> m then expo_up (m / 2) + 1 else 0)"
  by pat_completeness auto
termination
  by (relation "measure (\<lambda>m. nat \<lfloor>m\<rfloor>)") (auto, linarith)

function expo_down :: "real \<Rightarrow> int" where
  "expo_down m = (if 0 < m \<and> m < 1 then expo_down (m * 2) - 1 else 0)"
  by pat_completeness auto
termination
proof (relation "measure (\<lambda>m. nat \<lceil>1 / m\<rceil>)")
  show "wf (measure (\<lambda>m. nat \<lceil>1 / m\<rceil>))" by simp
next
  fix m :: real
  assume a: "0 < m \<and> m < 1"
  then have y: "1 < 1 / m" by simp
  have h: "1 / (m * 2) = (1 / m) / 2" by simp
  have "\<lceil>(1 / m) / 2\<rceil> < \<lceil>1 / m\<rceil>"
  proof -
    have "1 / m \<le> of_int \<lceil>1 / m\<rceil>" by (rule le_of_int_ceiling)
    moreover have "2 \<le> \<lceil>1 / m\<rceil>" using y by linarith
    then have "(2::real) \<le> of_int \<lceil>1 / m\<rceil>" by simp
    moreover have "\<And>y c :: real. y \<le> c \<Longrightarrow> 2 \<le> c \<Longrightarrow> y / 2 \<le> c - 1" by simp
    ultimately have "(1 / m) / 2 \<le> of_int \<lceil>1 / m\<rceil> - 1" by blast
    then have "(1 / m) / 2 \<le> of_int (\<lceil>1 / m\<rceil> - 1)" by simp
    then show ?thesis by (simp add: ceiling_less_iff)
  qed
  moreover have "0 < \<lceil>1 / m\<rceil>" using y by linarith
  ultimately show "(m * 2, m) \<in> measure (\<lambda>m. nat \<lceil>1 / m\<rceil>)"
    unfolding h by simp
qed

declare expo_up.simps [simp del] expo_down.simps [simp del]

definition binade :: "real \<Rightarrow> int" where
  "binade x = (if 1 \<le> \<bar>x\<bar> then expo_up \<bar>x\<bar> else expo_down \<bar>x\<bar>)"

text \<open>Rounding to single precision: the nearest number with a significand of 24 bits,
  a tie to the one with even significand. The exponent range is not bounded: overflow to
  infinity and underflow are not modelled.\<close>

definition fl32 :: "real \<Rightarrow> real" where
  "fl32 x =
     (if x = 0 then 0
      else (let u = power_int 2 (binade x - 23) in u * of_int (lrintf (x / u))))"

text \<open>The operations on \<^verbatim>\<open>float\<close>: the exact result, rounded, each operation on its
  own (no wider intermediate precision, no fused multiply-add). The divisor of
  \<open>float_div\<close> is not 0 where the model uses it.\<close>

definition int_to_float :: "int \<Rightarrow> real" where
  "int_to_float i = fl32 (real_of_int i)"

definition float_add :: "real \<Rightarrow> real \<Rightarrow> real" where
  "float_add a b = fl32 (a + b)"

definition float_sub :: "real \<Rightarrow> real \<Rightarrow> real" where
  "float_sub a b = fl32 (a - b)"

definition float_mul :: "real \<Rightarrow> real \<Rightarrow> real" where
  "float_mul a b = fl32 (a * b)"

definition float_div :: "real \<Rightarrow> real \<Rightarrow> real" where
  "float_div a b = fl32 (a / b)"

text \<open>Storing an \<^verbatim>\<open>int\<close> into an \<^verbatim>\<open>int16_t\<close> debug slot keeps the low 16 bits.\<close>

definition to_int16 :: "int \<Rightarrow> int" where
  "to_int16 i = (i + 32768) mod 65536 - 32768"

text \<open>Modelled from the spec: \<^verbatim>\<open>GET_DIRECTION\<close> is not part of the sources at hand; the
  adjustment is sign-flipped if the reversal flag is set.\<close>

definition GET_DIRECTION :: "bool \<Rightarrow> int" where
  "GET_DIRECTION isReversed = (if isReversed then - 1 else 1)"

subsection \<open>Configuration, inputs and state\<close>

text \<open>What the parameter groups and the platform supply: the PID gains read through
  \<^verbatim>\<open>pidProfile\<close>, \<^verbatim>\<open>rcControlsConfig()\<close>, \<^verbatim>\<open>airplaneConfig()\<close>, \<^verbatim>\<open>barometerConfig()\<close>, the
  command range \<^verbatim>\<open>PWM_RANGE_MIN\<close>, \<^verbatim>\<open>PWM_RANGE_MAX\<close>, whose values the file does not fix,
  and the value the platform's conversion of a NaN to \<^verbatim>\<open>int32_t\<close> gives, which C leaves
  undefined.\<close>

record config =
  P8_PIDALT :: "8 word"
  P8_PIDVEL :: "8 word"
  I8_PIDVEL :: "8 word"
  D8_PIDVEL :: "8 word"
  alt_hold_deadband :: "8 word"
  alt_hold_fast_change :: "8 word"
  fixedwing_althold_reversed :: bool
  baro_cf_alt :: real
  baro_cf_vel :: real
  PWM_RANGE_MIN :: int
  PWM_RANGE_MAX :: int
  float_nan_to_int :: int

text \<open>What the collaborators answer during one call. \<^verbatim>\<open>isBaroCalibrationComplete()\<close> is
  asked twice by \<^verbatim>\<open>calculateEstimatedAltitude\<close>, at line 226 and again at line 277, after
  \<^verbatim>\<open>performBaroCalibrationCycle()\<close> may have run: the two answers are two inputs.\<close>

record inputs =
  rcData_THROTTLE :: "16 word"
  STATE_FIXED_WING :: bool
  rcMode_BOXBARO :: bool
  rcMode_BOXSONAR :: bool
  attitude_roll :: "16 word"
  attitude_pitch :: "16 word"
  sensors_BARO :: bool
  sensors_SONAR :: bool
  sensors_ACC :: bool
  isBaroCalibrationComplete_226 :: bool
  isBaroCalibrationComplete_277 :: bool
  baroCalculateAltitude :: int
  sonarCalculateAltitude :: int
  sonarCfAltCm :: int
  sonarMaxAltWithTiltCm :: int
  accVelScale :: real
  debugMode_ALTITUDE :: bool

text \<open>The globals and function-local statics of the file, the variables of other modules
  it writes (\<^verbatim>\<open>rcCommand\<close>, the flight-mode flags, the debug slots, the acceleration sums
  that \<^verbatim>\<open>imuResetAccelerationSum\<close> clears), and the number of calibration cycles it has
  asked the barometer for.\<close>

record state =
  setVelocity :: int
  velocityControl :: "8 word"
  errorVelocityI :: int
  altHoldThrottleAdjustment :: int
  AltHold :: int
  estimatedVario :: int
  estimatedAltitude :: int
  initialThrottleHold :: "16 word"
  isAltHoldChanged :: "8 word"
  previousTimeUs :: "32 word"
  vel :: real
  accAlt :: real
  lastBaroAlt :: int
  accZ_old :: real
  rcCommand_THROTTLE :: int
  rcCommand_PITCH :: int
  BARO_MODE :: bool
  SONAR_MODE :: bool
  accSum_Z :: int
  accSumCount :: int
  accTimeSum :: "32 word"
  debug_ALTITUDE_ACC :: int
  debug_ALTITUDE_VEL :: int
  debug_ALTITUDE_HEIGHT :: int
  baroCalibrationCycles :: nat

datatype error = IntegerDivisionByZero

subsection \<open>Applying the hold to the commands (lines 85-134)\<close>

definition applyMultirotorAltHold :: "config \<Rightarrow> inputs \<Rightarrow> state \<Rightarrow> state" where
  "applyMultirotorAltHold cfg inp s =
     (let deviation = sint (rcData_THROTTLE inp) - sint (initialThrottleHold s);
          deadband = uint (alt_hold_deadband cfg)
      in if alt_hold_fast_change cfg \<noteq> 0 then
           (if ABS deviation > deadband then
              s\<lparr>errorVelocityI := 0,
                isAltHoldChanged := 1,
                rcCommand_THROTTLE := rcCommand_THROTTLE s +
                  (if sint (rcData_THROTTLE inp) > sint (initialThrottleHold s)
                   then - deadband else deadband)\<rparr>
            else
              (let s1 = (if isAltHoldChanged s \<noteq> 0
                         then s\<lparr>AltHold := estimatedAltitude s, isAltHoldChanged := 0\<rparr>
                         else s)
               in s1\<lparr>rcCommand_THROTTLE :=
                        constrain (sint (initialThrottleHold s1) + altHoldThrottleAdjustment s1)
                          (PWM_RANGE_MIN cfg) (PWM_RANGE_MAX cfg)\<rparr>))
         else
           (let s1 = (if ABS deviation > deadband then
                        s\<lparr>setVelocity := div_trunc deviation 2,
                          velocityControl := 1,
                          isAltHoldChanged := 1\<rparr>
                      else if isAltHoldChanged s \<noteq> 0 then
                        s\<lparr>AltHold := estimatedAltitude s,
                          velocityControl := 0,
                          isAltHoldChanged := 0\<rparr>
                      else s)
            in s1\<lparr>rcCommand_THROTTLE :=
                     constrain (sint (initialThrottleHold s1) + altHoldThrottleAdjustment s1)
                       (PWM_RANGE_MIN cfg) (PWM_RANGE_MAX cfg)\<rparr>))"

definition applyFixedWingAltHold :: "config \<Rightarrow> state \<Rightarrow> state" where
  "applyFixedWingAltHold cfg s =
     s\<lparr>rcCommand_PITCH := rcCommand_PITCH s +
          altHoldThrottleAdjustment s * GET_DIRECTION (fixedwing_althold_reversed cfg)\<rparr>"

definition applyAltHold :: "config \<Rightarrow> inputs \<Rightarrow> state \<Rightarrow> state" where
  "applyAltHold cfg inp s =
     (if STATE_FIXED_WING inp then applyFixedWingAltHold cfg s
      else applyMultirotorAltHold cfg inp s)"

subsection \<open>Engaging and disengaging the hold (lines 136-168)\<close>

definition updateAltHoldState :: "inputs \<Rightarrow> state \<Rightarrow> state" where
  "updateAltHoldState inp s =
     (if \<not> rcMode_BOXBARO inp then s\<lparr>BARO_MODE := False\<rparr>
      else if \<not> BARO_MODE s then
        s\<lparr>BARO_MODE := True,
          AltHold := estimatedAltitude s,
          initialThrottleHold := rcData_THROTTLE inp,
          errorVelocityI := 0,
          altHoldThrottleAdjustment := 0\<rparr>
      else s)"

definition updateSonarAltHoldState :: "inputs \<Rightarrow> state \<Rightarrow> state" where
  "updateSonarAltHoldState inp s =
     (if \<not> rcMode_BOXSONAR inp then s\<lparr>SONAR_MODE := False\<rparr>
      else if \<not> SONAR_MODE s then
        s\<lparr>SONAR_MODE := True,
          AltHold := estimatedAltitude s,
          initialThrottleHold := rcData_THROTTLE inp,
          errorVelocityI := 0,
          altHoldThrottleAdjustment := 0\<rparr>
      else s)"

subsection \<open>The cascaded controller (lines 170-209)\<close>

definition isThrustFacingDownwards :: "inputs \<Rightarrow> bool" where
  "isThrustFacingDownwards inp =
     (ABS (sint (attitude_roll inp)) < 800 \<and> ABS (sint (attitude_pitch inp)) < 800)"

text \<open>The altitude P-controller, lines 187-193: the value of the local \<^verbatim>\<open>setVel\<close>.\<close>

definition altHoldSetVel :: "config \<Rightarrow> state \<Rightarrow> int" where
  "altHoldSetVel cfg s =
     (if velocityControl s = 0 then
        (let error = constrain (AltHold s - estimatedAltitude s) (- 500) 500;
             error = applyDeadband error 10
         in constrain (div_trunc (uint (P8_PIDALT cfg) * error) 128) (- 300) 300)
      else setVelocity s)"

definition calculateAltHoldThrottleAdjustment ::
  "config \<Rightarrow> inputs \<Rightarrow> int \<Rightarrow> real \<Rightarrow> real \<Rightarrow> state \<Rightarrow> int \<times> state" where
  "calculateAltHoldThrottleAdjustment cfg inp vel_tmp accZ_tmp accZ_old' s =
     (if \<not> isThrustFacingDownwards inp then (0, s)
      else
        (let setVel = altHoldSetVel cfg s;
             error = setVel - vel_tmp;
             result = constrain (div_trunc (uint (P8_PIDVEL cfg) * error) 32) (- 300) 300;
             s1 = s\<lparr>errorVelocityI := errorVelocityI s + uint (I8_PIDVEL cfg) * error\<rparr>;
             s2 = s1\<lparr>errorVelocityI :=
                       constrain (errorVelocityI s1) (- (8192 * 200)) (8192 * 200)\<rparr>;
             result = result + div_trunc (errorVelocityI s2) 8192;
             result = result -
               constrain
                 (float_to_int (of_int (uint (D8_PIDVEL cfg)) * (accZ_tmp + accZ_old') / 512))
                 (- 150) 150
         in (result, s2)))"

subsection \<open>The estimator (lines 211-301)\<close>

text \<open>Lines 223-235: the barometer. The first component is the local \<^verbatim>\<open>baroAlt\<close>.\<close>

definition estimatorBaroStage :: "inputs \<Rightarrow> state \<Rightarrow> int \<times> state" where
  "estimatorBaroStage inp s =
     (if sensors_BARO inp then
        (if \<not> isBaroCalibrationComplete_226 inp then
           (0, s\<lparr>baroCalibrationCycles := Suc (baroCalibrationCycles s),
                 vel := 0,
                 accAlt := 0\<rparr>)
         else
           (baroCalculateAltitude inp, s\<lparr>estimatedAltitude := baroCalculateAltitude inp\<rparr>))
      else (0, s))"

text \<open>Lines 237-247: the ranging sensor, in single precision. The divisor of
  \<^verbatim>\<open>sonarTransition\<close> is the width of the band. When it is 0, the reading that passed the
  test equals both bounds and the quotient is 0/0: \<^verbatim>\<open>sonarTransition\<close> and the blend are
  NaN, nothing traps, and the estimate becomes what the conversion of a NaN gives.\<close>

definition estimatorSonarStage :: "config \<Rightarrow> inputs \<Rightarrow> int \<Rightarrow> state \<Rightarrow> state" where
  "estimatorSonarStage cfg inp baroAlt s =
     (if sensors_SONAR inp then
        (let sonarAlt = sonarCalculateAltitude inp in
         if sonarAlt > 0 \<and> sonarAlt \<ge> sonarCfAltCm inp \<and> sonarAlt \<le> sonarMaxAltWithTiltCm inp
         then
           (if sonarMaxAltWithTiltCm inp - sonarCfAltCm inp = 0
            then s\<lparr>estimatedAltitude := float_nan_to_int cfg\<rparr>
            else
              (let sonarTransition =
                     float_div (int_to_float (sonarMaxAltWithTiltCm inp - sonarAlt))
                       (int_to_float (sonarMaxAltWithTiltCm inp - sonarCfAltCm inp));
                   sonarAlt = float_to_int
                     (float_add (float_mul (int_to_float sonarAlt) sonarTransition)
                        (float_mul (int_to_float baroAlt) (float_sub 1 sonarTransition)))
               in s\<lparr>estimatedAltitude := sonarAlt\<rparr>))
         else s)
      else s)"

text \<open>Lines 249-266: the accelerometer. The first component is the local \<^verbatim>\<open>accZ_tmp\<close>.\<close>

definition estimatorAccStage :: "config \<Rightarrow> inputs \<Rightarrow> int \<Rightarrow> state \<Rightarrow> real \<times> state" where
  "estimatorAccStage cfg inp baroAlt s =
     (if sensors_ACC inp then
        (let dt = real (unat (accTimeSum s)) * (1 / 1000000);
             accZ_tmp = (if accSumCount s \<noteq> 0
                         then real_of_int (accSum_Z s) / real_of_int (accSumCount s)
                         else 0);
             vel_acc = accZ_tmp * accVelScale inp * real (unat (accTimeSum s));
             s1 = s\<lparr>accAlt := accAlt s + (vel_acc * (1 / 2)) * dt + vel s * dt\<rparr>;
             s2 = s1\<lparr>accAlt := accAlt s1 * baro_cf_alt cfg +
                              real_of_int baroAlt * (1 - baro_cf_alt cfg)\<rparr>;
             s3 = s2\<lparr>vel := vel s2 + vel_acc\<rparr>
         in (accZ_tmp, s3\<lparr>estimatedAltitude := float_to_int (accAlt s3)\<rparr>))
      else (0, s))"

text \<open>Lines 268-270. \<^verbatim>\<open>DEBUG_SET\<close> is not part of the sources at hand: it stores the value
  in the debug slot when the debug mode given is the selected one, and evaluates it only
  then. The first value is an integer quotient.\<close>

definition estimatorDebugStage :: "inputs \<Rightarrow> state \<Rightarrow> error + state" where
  "estimatorDebugStage inp s =
     (if debugMode_ALTITUDE inp then
        (if accSumCount s = 0 then Inl IntegerDivisionByZero
         else Inr (s\<lparr>debug_ALTITUDE_ACC := to_int16 (div_trunc (accSum_Z s) (accSumCount s)),
                     debug_ALTITUDE_VEL := to_int16 (float_to_int (vel s)),
                     debug_ALTITUDE_HEIGHT := to_int16 (float_to_int (accAlt s))\<rparr>))
      else Inr s)"

text \<open>Modelled from the spec: \<^verbatim>\<open>imuResetAccelerationSum\<close> of flight/imu.c is not part of
  the sources at hand; it resets the accumulation window (sample sum, count and time).\<close>

definition imuResetAccelerationSum :: "state \<Rightarrow> state" where
  "imuResetAccelerationSum s = s\<lparr>accSum_Z := 0, accSumCount := 0, accTimeSum := 0\<rparr>"

text \<open>Lines 274-300: the barometric velocity, the complementary filter, the vario and
  the controller.\<close>

definition estimatorVelocityStage ::
  "config \<Rightarrow> inputs \<Rightarrow> 32 word \<Rightarrow> int \<Rightarrow> real \<Rightarrow> state \<Rightarrow> state" where
  "estimatorVelocityStage cfg inp dTime baroAlt accZ_tmp s =
     (if sensors_BARO inp \<and> \<not> isBaroCalibrationComplete_277 inp then s
      else
        (let (baroVel, s1) =
               (if sensors_BARO inp then
                  (let baroVel = float_to_int
                         (real_of_int (baroAlt - lastBaroAlt s) * 1000000 / real (unat dTime));
                       baroVel = constrain baroVel (- 1500) 1500
                   in (applyDeadband baroVel 10, s\<lparr>lastBaroAlt := baroAlt\<rparr>))
                else (0, s));
             s2 = s1\<lparr>vel := vel s1 * baro_cf_vel cfg +
                           real_of_int baroVel * (1 - baro_cf_vel cfg)\<rparr>;
             vel_tmp = lrintf (vel s2);
             s3 = s2\<lparr>estimatedVario := applyDeadband vel_tmp 5\<rparr>;
             (adjustment, s4) =
               calculateAltHoldThrottleAdjustment cfg inp vel_tmp accZ_tmp (accZ_old s3) s3
         in s4\<lparr>altHoldThrottleAdjustment := adjustment, accZ_old := accZ_tmp\<rparr>))"

definition calculateEstimatedAltitude ::
  "config \<Rightarrow> inputs \<Rightarrow> 32 word \<Rightarrow> state \<Rightarrow> error + state" where
  "calculateEstimatedAltitude cfg inp currentTimeUs s =
     (let dTime = currentTimeUs - previousTimeUs s in
      if dTime < 25000 then Inr s
      else
        (let s0 = s\<lparr>previousTimeUs := currentTimeUs\<rparr>;
             (baroAlt, s1) = estimatorBaroStage inp s0;
             s2 = estimatorSonarStage cfg inp baroAlt s1;
             (accZ_tmp, s3) = estimatorAccStage cfg inp baroAlt s2
         in case estimatorDebugStage inp s3 of
              Inl e \<Rightarrow> Inl e
            | Inr s4 \<Rightarrow>
                Inr (estimatorVelocityStage cfg inp dTime baroAlt accZ_tmp
                       (imuResetAccelerationSum s4))))"

definition getEstimatedAltitude :: "state \<Rightarrow> int" where
  "getEstimatedAltitude s = estimatedAltitude s"

definition getEstimatedVario :: "state \<Rightarrow> int" where
  "getEstimatedVario s = estimatedVario s"

subsection \<open>Calls in sequence\<close>

text \<open>The scheduler calls the functions of the file in some order, each with the
  answers the collaborators give at that moment; in between, other modules write the
  command channels and the acceleration sums. An execution stops at the first error.\<close>

datatype call =
    ApplyAltHold
  | UpdateAltHoldState
  | UpdateSonarAltHoldState
  | CalculateAltHoldThrottleAdjustment int real real
  | CalculateEstimatedAltitude "32 word"
  | OtherModules int int int int "32 word"

fun step :: "config \<Rightarrow> inputs \<times> call \<Rightarrow> state \<Rightarrow> error + state" where
  "step cfg (inp, ApplyAltHold) s = Inr (applyAltHold cfg inp s)"
| "step cfg (inp, UpdateAltHoldState) s = Inr (updateAltHoldState inp s)"
| "step cfg (inp, UpdateSonarAltHoldState) s = Inr (updateSonarAltHoldState inp s)"
| "step cfg (inp, CalculateAltHoldThrottleAdjustment vel_tmp accZ_tmp accZ_old') s =
     Inr (snd (calculateAltHoldThrottleAdjustment cfg inp vel_tmp accZ_tmp accZ_old' s))"
| "step cfg (inp, CalculateEstimatedAltitude currentTimeUs) s =
     calculateEstimatedAltitude cfg inp currentTimeUs s"
| "step cfg (inp, OtherModules throttle pitch sumZ cnt tsum) s =
     Inr (s\<lparr>rcCommand_THROTTLE := throttle, rcCommand_PITCH := pitch,
            accSum_Z := sumZ, accSumCount := cnt, accTimeSum := tsum\<rparr>)"

fun run :: "config \<Rightarrow> (inputs \<times> call) list \<Rightarrow> state \<Rightarrow> error + state" where
  "run cfg [] s = Inr s"
| "run cfg (c # cs) s = (case step cfg c s of Inl e \<Rightarrow> Inl e | Inr s' \<Rightarrow> run cfg cs s')"

subsection \<open>The outer stage in the words of the specification\<close>

text \<open>The specification writes the position stage with \<open>clamp\<close> and \<open>deadband\<close>:
  a clamp is the nearest value of the range, a deadband subtracts the threshold from the
  magnitude. The quotient is the integer quotient of the code.\<close>

definition spec_clamp :: "int \<Rightarrow> int \<Rightarrow> int \<Rightarrow> int" where
  "spec_clamp x lo hi = max lo (min hi x)"

definition spec_deadband :: "int \<Rightarrow> int \<Rightarrow> int" where
  "spec_deadband x d = (if \<bar>x\<bar> < d then 0 else sgn x * (\<bar>x\<bar> - d))"

definition spec_targetVelocity :: "int \<Rightarrow> int \<Rightarrow> int \<Rightarrow> int" where
  "spec_targetVelocity P_alt targetAltitude currentAltitude =
     spec_clamp
       (div_trunc
          (P_alt * spec_deadband (spec_clamp (targetAltitude - currentAltitude) (- 500) 500) 10)
          128)
       (- 300) 300"

subsection \<open>Concrete configuration, inputs and state\<close>

text \<open>The filter coefficients are chosen as 1/2, which single precision represents
  exactly.\<close>

definition example_config :: config where
  "example_config =
     \<lparr>P8_PIDALT = 50, P8_PIDVEL = 120, I8_PIDVEL = 45, D8_PIDVEL = 1,
      alt_hold_deadband = 40, alt_hold_fast_change = 1,
      fixedwing_althold_reversed = False,
      baro_cf_alt = 1 / 2, baro_cf_vel = 1 / 2,
      PWM_RANGE_MIN = 1000, PWM_RANGE_MAX = 2000, float_nan_to_int = 0\<rparr>"

definition example_inputs :: inputs where
  "example_inputs =
     \<lparr>rcData_THROTTLE = 1500, STATE_FIXED_WING = False,
      rcMode_BOXBARO = True, rcMode_BOXSONAR = True,
      attitude_roll = 0, attitude_pitch = 0,
      sensors_BARO = True, sensors_SONAR = False, sensors_ACC = False,
      isBaroCalibrationComplete_226 = True, isBaroCalibrationComplete_277 = True,
      baroCalculateAltitude = 400, sonarCalculateAltitude = 0,
      sonarCfAltCm = 100, sonarMaxAltWithTiltCm = 300,
      accVelScale = 1 / 1000000, debugMode_ALTITUDE = False\<rparr>"

text \<open>The state at start-up: every variable of static storage is zero.\<close>

definition initial_state :: state where
  "initial_state =
     \<lparr>setVelocity = 0, velocityControl = 0, errorVelocityI = 0,
      altHoldThrottleAdjustment = 0, AltHold = 0, estimatedVario = 0,
      estimatedAltitude = 0, initialThrottleHold = 0, isAltHoldChanged = 0,
      previousTimeUs = 0, vel = 0, accAlt = 0, lastBaroAlt = 0, accZ_old = 0,
      rcCommand_THROTTLE = 0, rcCommand_PITCH = 0, BARO_MODE = False, SONAR_MODE = False,
      accSum_Z = 0, accSumCount = 0, accTimeSum = 0,
      debug_ALTITUDE_ACC = 0, debug_ALTITUDE_VEL = 0, debug_ALTITUDE_HEIGHT = 0,
      baroCalibrationCycles = 0\<rparr>"

subsection \<open>Notions used to state the properties\<close>

text \<open>The range the code clamps the velocity integrator to (line 202).\<close>

definition errorVelocityI_in_range :: "state \<Rightarrow> bool" where
  "errorVelocityI_in_range s =
     (- (8192 * 200) \<le> errorVelocityI s \<and> errorVelocityI s \<le> 8192 * 200)"

text \<open>The test of lines 238 and 240: the ranging sensor is there and its reading is
  positive and within the band.\<close>

definition sonarInBand :: "inputs \<Rightarrow> bool" where
  "sonarInBand inp =
     (sensors_SONAR inp \<and> sonarCalculateAltitude inp > 0 \<and>
      sonarCalculateAltitude inp \<ge> sonarCfAltCm inp \<and>
      sonarCalculateAltitude inp \<le> sonarMaxAltWithTiltCm inp)"

text \<open>The transition factor and the linear blend in the words of the specification,
  first exact, then with every operation in single precision.\<close>

definition spec_sonarTransition :: "int \<Rightarrow> int \<Rightarrow> int \<Rightarrow> real" where
  "spec_sonarTransition sonarAlt lo hi = real_of_int (hi - sonarAlt) / real_of_int (hi - lo)"

definition spec_blend :: "int \<Rightarrow> int \<Rightarrow> real \<Rightarrow> real" where
  "spec_blend sonarAlt baroAlt t = real_of_int sonarAlt * t + real_of_int baroAlt * (1 - t)"

definition float_sonarTransition :: "int \<Rightarrow> int \<Rightarrow> int \<Rightarrow> real" where
  "float_sonarTransition sonarAlt lo hi =
     float_div (int_to_float (hi - sonarAlt)) (int_to_float (hi - lo))"

definition float_blend :: "int \<Rightarrow> int \<Rightarrow> real \<Rightarrow> real" where
  "float_blend sonarAlt baroAlt t =
     float_add (float_mul (int_to_float sonarAlt) t)
       (float_mul (int_to_float baroAlt) (float_sub 1 t))"

section \<open>Properties\<close>

subsection \<open>Arithmetic helpers\<close>

lemma ABS_abs: "ABS x = \<bar>x\<bar>"
  by (simp add: ABS_def)

lemma constrain_bounds:
  "lo \<le> hi \<Longrightarrow> lo \<le> constrain x lo hi \<and> constrain x lo hi \<le> hi"
  by (simp add: constrain_def)

lemma div_trunc_pos:
  "0 < b \<Longrightarrow> div_trunc a b = (if 0 \<le> a then a div b else - ((- a) div b))"
  by (simp add: div_trunc_def sgn_if)

lemma div_trunc_8192_bound:
  assumes "- 1638400 \<le> x" "x \<le> 1638400"
  shows "- 200 \<le> div_trunc x 8192 \<and> div_trunc x 8192 \<le> 200"
  using assms by (simp add: div_trunc_pos) linarith

lemma constrain_spec_clamp: "lo \<le> hi \<Longrightarrow> constrain x lo hi = spec_clamp x lo hi"
  by (simp add: constrain_def spec_clamp_def)

lemma applyDeadband_spec_deadband: "0 \<le> d \<Longrightarrow> applyDeadband x d = spec_deadband x d"
  by (simp add: applyDeadband_def spec_deadband_def ABS_abs sgn_if)

subsection \<open>Single precision\<close>

lemma expo_up_bounds:
  "1 \<le> m \<Longrightarrow>
   0 \<le> expo_up m \<and> power_int 2 (expo_up m) \<le> m \<and> m < power_int 2 (expo_up m + 1)"
proof (induction m rule: expo_up.induct)
  case (1 m)
  show ?case
  proof (cases "2 \<le> m")
    case True
    then have ih: "0 \<le> expo_up (m / 2) \<and> power_int 2 (expo_up (m / 2)) \<le> m / 2 \<and>
        m / 2 < power_int 2 (expo_up (m / 2) + 1)"
      using "1.IH" by simp
    have e: "expo_up m = expo_up (m / 2) + 1"
      using True by (subst expo_up.simps) simp
    have p: "\<And>k. power_int (2::real) (k + 1) = power_int 2 k * 2"
      by (rule power_int_add_1) simp
    show ?thesis
      using ih unfolding e p by auto
  next
    case False
    then have e: "expo_up m = 0" by (subst expo_up.simps) simp
    show ?thesis using False "1.prems" by (simp add: e)
  qed
qed

lemma expo_down_bounds:
  "0 < m \<Longrightarrow> m < 1 \<Longrightarrow>
   expo_down m < 0 \<and> power_int 2 (expo_down m) \<le> m \<and> m < power_int 2 (expo_down m + 1)"
proof (induction m rule: expo_down.induct)
  case (1 m)
  have e: "expo_down m = expo_down (m * 2) - 1"
    using "1.prems" by (subst expo_down.simps) simp
  have p: "\<And>k. power_int (2::real) (k - 1) * 2 = power_int 2 k"
    by (rule power_int_minus_mult) simp
  show ?case
  proof (cases "m * 2 < 1")
    case True
    then have ih: "expo_down (m * 2) < 0 \<and> power_int 2 (expo_down (m * 2)) \<le> m * 2 \<and>
        m * 2 < power_int 2 (expo_down (m * 2) + 1)"
      using "1.IH" "1.prems" by simp
    show ?thesis
      using ih p [of "expo_down (m * 2)"] p [of "expo_down (m * 2) + 1"] unfolding e by auto
  next
    case False
    then have z: "expo_down (m * 2) = 0" by (subst expo_down.simps) simp
    show ?thesis
      using False "1.prems" unfolding e z by (simp add: power_int_minus_divide)
  qed
qed

lemma binade_bounds:
  assumes "x \<noteq> 0"
  shows "power_int 2 (binade x) \<le> \<bar>x\<bar> \<and> \<bar>x\<bar> < power_int 2 (binade x + 1)"
proof (cases "1 \<le> \<bar>x\<bar>")
  case True
  then show ?thesis using expo_up_bounds [of "\<bar>x\<bar>"] by (simp add: binade_def)
next
  case False
  then show ?thesis using assms expo_down_bounds [of "\<bar>x\<bar>"] by (simp add: binade_def)
qed

lemma lrintf_of_int: "lrintf (of_int k) = k"
  by (simp add: lrintf_def)

lemma lrintf_nonzero: "1 \<le> \<bar>y\<bar> \<Longrightarrow> lrintf y \<noteq> 0"
  unfolding lrintf_def Let_def by (auto split: if_splits) linarith+

lemma fl32_zero: "fl32 0 = 0"
  by (simp add: fl32_def)

text \<open>Without underflow, rounding never gives 0 for a nonzero number.\<close>

lemma fl32_nonzero:
  assumes "x \<noteq> 0"
  shows "fl32 x \<noteq> 0"
proof -
  define u where "u = power_int (2::real) (binade x - 23)"
  have u: "0 < u" by (simp add: u_def)
  have "power_int (2::real) (binade x) = u * 2 ^ 23"
    by (simp add: u_def power_int_diff)
  then have "u * 2 ^ 23 \<le> \<bar>x\<bar>" using binade_bounds [OF assms] by simp
  then have "2 ^ 23 \<le> \<bar>x\<bar> / u" using u by (simp add: pos_le_divide_eq mult.commute)
  moreover have "\<bar>x / u\<bar> = \<bar>x\<bar> / u" using u by (simp add: abs_divide)
  moreover have "(1::real) \<le> 2 ^ 23" by simp
  ultimately have "1 \<le> \<bar>x / u\<bar>" by linarith
  then have "lrintf (x / u) \<noteq> 0" by (rule lrintf_nonzero)
  then show ?thesis using assms u by (simp add: fl32_def Let_def u_def [symmetric])
qed

text \<open>The integers of magnitude up to \<open>2 ^ 24\<close> are single-precision numbers.\<close>

lemma fl32_of_int:
  assumes "\<bar>i\<bar> \<le> 2 ^ 24"
  shows "fl32 (of_int i) = of_int i"
proof (cases "i = 0")
  case True
  then show ?thesis by (simp add: fl32_def)
next
  case False
  define x :: real where "x = of_int i"
  define e where "e = binade x"
  have x0: "x \<noteq> 0" using False by (simp add: x_def)
  have ax: "\<bar>x\<bar> = of_int \<bar>i\<bar>" by (simp add: x_def)
  have b: "power_int 2 e \<le> \<bar>x\<bar>" "\<bar>x\<bar> < power_int 2 (e + 1)"
    using binade_bounds [OF x0] by (simp_all add: e_def)
  have "1 \<le> \<bar>i\<bar>" using False by linarith
  then have x1: "1 \<le> \<bar>x\<bar>" unfolding ax by linarith
  have xm: "\<bar>x\<bar> \<le> 2 ^ 24" using assms unfolding ax by simp
  have e0: "0 \<le> e"
  proof (rule ccontr)
    assume "\<not> 0 \<le> e"
    then have "e + 1 \<le> 0" by simp
    then have "power_int (2::real) (e + 1) \<le> power_int 2 0"
      by (intro power_int_increasing) simp_all
    then show False using b(2) x1 by simp
  qed
  have e24: "e \<le> 24"
  proof (rule ccontr)
    assume "\<not> e \<le> 24"
    then have "25 \<le> e" by simp
    then have "power_int (2::real) 25 \<le> power_int 2 e"
      by (intro power_int_increasing) simp_all
    then show False using b(1) xm by simp
  qed
  obtain k :: int where k: "x / power_int 2 (e - 23) = of_int k"
  proof (cases "e \<le> 23")
    case True
    then have "power_int (2::real) (e - 23) = 1 / 2 ^ nat (23 - e)"
      by (simp add: power_int_def inverse_eq_divide power_one_over)
    then have "x / power_int 2 (e - 23) = of_int (i * 2 ^ nat (23 - e))"
      by (simp add: x_def)
    then show ?thesis using that by blast
  next
    case False
    then have e: "e = 24" using e24 by simp
    then have "\<bar>x\<bar> = 2 ^ 24" using b(1) xm by simp
    then have "\<bar>i\<bar> = 2 ^ 24" unfolding ax by simp
    then have "i = 16777216 \<or> i = - 16777216" by (simp add: abs_if split: if_splits)
    then have "i = 2 * (i div 2)" by auto
    then have "of_int i = (2::real) * of_int (i div 2)"
      by (metis of_int_mult of_int_numeral)
    then have "x / power_int 2 (e - 23) = of_int (i div 2)"
      unfolding e x_def by simp
    then show ?thesis using that by blast
  qed
  have "fl32 x = power_int 2 (e - 23) * of_int (lrintf (x / power_int 2 (e - 23)))"
    using x0 by (simp add: fl32_def Let_def e_def)
  also have "\<dots> = power_int 2 (e - 23) * (x / power_int 2 (e - 23))"
    unfolding k lrintf_of_int ..
  also have "\<dots> = x" by simp
  finally show ?thesis by (simp add: x_def)
qed

lemma int_to_float_exact: "\<bar>i\<bar> \<le> 2 ^ 24 \<Longrightarrow> int_to_float i = of_int i"
  by (simp add: int_to_float_def fl32_of_int)

lemma fl32_one: "fl32 1 = 1"
  using fl32_of_int [of 1] by simp

text \<open>The transition factor is exactly 1 at the lower bound of the band and exactly 0 at
  the upper bound.\<close>

lemma float_sonarTransition_ends:
  assumes "lo \<noteq> hi"
  shows "float_sonarTransition lo lo hi = 1 \<and> float_sonarTransition hi lo hi = 0"
proof -
  have "int_to_float (hi - lo) \<noteq> 0"
    using assms by (simp add: int_to_float_def fl32_nonzero)
  then show ?thesis
    by (simp add: float_sonarTransition_def float_div_def fl32_one fl32_zero int_to_float_def)
qed

text \<open>With the factor 1 the blend is the reading, with the factor 0 it is the barometric
  altitude, when single precision represents them.\<close>

lemma float_blend_ends:
  "\<bar>sonarAlt\<bar> \<le> 2 ^ 24 \<Longrightarrow> float_blend sonarAlt baroAlt 1 = of_int sonarAlt"
  "\<bar>baroAlt\<bar> \<le> 2 ^ 24 \<Longrightarrow> float_blend sonarAlt baroAlt 0 = of_int baroAlt"
  by (simp_all add: float_blend_def float_add_def float_mul_def float_sub_def fl32_one
        fl32_zero int_to_float_exact fl32_of_int)

subsection \<open>The rate limit of the estimator\<close>

text \<open>C4: a call of \<^verbatim>\<open>calculateEstimatedAltitude\<close> whose time stamp is less than 25000
  microseconds after the last accepted one, the difference taken in \<^verbatim>\<open>uint32_t\<close>, changes
  nothing: the whole state, and with it the estimates, the adjustment and the fusion
  state, is returned as it was. The witness has the timer wrapped around between the
  two time stamps.\<close>

theorem short_interval_is_noop:
  "currentTimeUs - previousTimeUs s < 25000 \<Longrightarrow>
   calculateEstimatedAltitude cfg inp currentTimeUs s = Inr s"
  by (simp add: calculateEstimatedAltitude_def)

theorem short_interval_is_noop_witness:
  "(10 :: 32 word) - previousTimeUs (initial_state\<lparr>previousTimeUs := 4294967290\<rparr>) < 25000 \<and>
   calculateEstimatedAltitude example_config example_inputs 10
     (initial_state\<lparr>previousTimeUs := 4294967290\<rparr>) =
   Inr (initial_state\<lparr>previousTimeUs := 4294967290\<rparr>)"
proof -
  have h: "(10 :: 32 word) - previousTimeUs (initial_state\<lparr>previousTimeUs := 4294967290\<rparr>)
           < 25000"
    by simp
  show ?thesis
    using h short_interval_is_noop [OF h, of example_config example_inputs] by simp
qed

subsection \<open>Engaging the hold\<close>

lemma updateAltHoldState_engaged:
  "rcMode_BOXBARO inp \<Longrightarrow> BARO_MODE s \<Longrightarrow> updateAltHoldState inp s = s"
  by (simp add: updateAltHoldState_def)

lemma updateSonarAltHoldState_engaged:
  "rcMode_BOXSONAR inp \<Longrightarrow> SONAR_MODE s \<Longrightarrow> updateSonarAltHoldState inp s = s"
  by (simp add: updateSonarAltHoldState_def)

lemma fold_updateAltHoldState_engaged:
  "\<forall>i \<in> set inps. rcMode_BOXBARO i \<Longrightarrow> BARO_MODE s \<Longrightarrow>
   fold updateAltHoldState inps s = s"
  by (induction inps) (simp_all add: updateAltHoldState_engaged)

lemma fold_updateSonarAltHoldState_engaged:
  "\<forall>i \<in> set inps. rcMode_BOXSONAR i \<Longrightarrow> SONAR_MODE s \<Longrightarrow>
   fold updateSonarAltHoldState inps s = s"
  by (induction inps) (simp_all add: updateSonarAltHoldState_engaged)

text \<open>C5: for \<^verbatim>\<open>updateAltHoldState\<close> and for \<^verbatim>\<open>updateSonarAltHoldState\<close>, a call with the
  mode request active and the flight mode not yet enabled enables it, latches \<open>AltHold\<close>
  to the estimate and \<open>initialThrottleHold\<close> to the throttle input, and resets
  \<open>errorVelocityI\<close> and \<open>altHoldThrottleAdjustment\<close> to 0, changing nothing else; a call
  with the request active and the mode enabled changes nothing; so any number of further
  calls with the request active, whatever the throttle input then is, leave the state as
  the first call left it.\<close>

theorem hold_engagement_latches_once:
  "(rcMode_BOXBARO inp \<and> \<not> BARO_MODE s \<longrightarrow>
      updateAltHoldState inp s =
        s\<lparr>BARO_MODE := True, AltHold := estimatedAltitude s,
          initialThrottleHold := rcData_THROTTLE inp,
          errorVelocityI := 0, altHoldThrottleAdjustment := 0\<rparr>) \<and>
   (rcMode_BOXBARO inp \<and> BARO_MODE s \<longrightarrow> updateAltHoldState inp s = s) \<and>
   (rcMode_BOXBARO inp \<and> (\<forall>i \<in> set inps. rcMode_BOXBARO i) \<longrightarrow>
      fold updateAltHoldState inps (updateAltHoldState inp s) = updateAltHoldState inp s) \<and>
   (rcMode_BOXSONAR inp \<and> \<not> SONAR_MODE s \<longrightarrow>
      updateSonarAltHoldState inp s =
        s\<lparr>SONAR_MODE := True, AltHold := estimatedAltitude s,
          initialThrottleHold := rcData_THROTTLE inp,
          errorVelocityI := 0, altHoldThrottleAdjustment := 0\<rparr>) \<and>
   (rcMode_BOXSONAR inp \<and> SONAR_MODE s \<longrightarrow> updateSonarAltHoldState inp s = s) \<and>
   (rcMode_BOXSONAR inp \<and> (\<forall>i \<in> set inps. rcMode_BOXSONAR i) \<longrightarrow>
      fold updateSonarAltHoldState inps (updateSonarAltHoldState inp s) =
      updateSonarAltHoldState inp s)"
proof -
  have b: "rcMode_BOXBARO inp \<Longrightarrow> BARO_MODE (updateAltHoldState inp s)"
    by (simp add: updateAltHoldState_def)
  have c: "rcMode_BOXSONAR inp \<Longrightarrow> SONAR_MODE (updateSonarAltHoldState inp s)"
    by (simp add: updateSonarAltHoldState_def)
  show ?thesis
    using b c
    by (auto simp: fold_updateAltHoldState_engaged fold_updateSonarAltHoldState_engaged
          updateAltHoldState_engaged updateSonarAltHoldState_engaged)
       (simp_all add: updateAltHoldState_def updateSonarAltHoldState_def)
qed

theorem hold_engagement_latches_once_witness:
  "updateAltHoldState example_inputs (initial_state\<lparr>estimatedAltitude := 123\<rparr>) =
     initial_state\<lparr>estimatedAltitude := 123, BARO_MODE := True, AltHold := 123,
       initialThrottleHold := 1500\<rparr> \<and>
   updateAltHoldState (example_inputs\<lparr>rcData_THROTTLE := 1700\<rparr>)
     (initial_state\<lparr>estimatedAltitude := 456, BARO_MODE := True\<rparr>) =
     initial_state\<lparr>estimatedAltitude := 456, BARO_MODE := True\<rparr> \<and>
   fold updateAltHoldState [example_inputs\<lparr>rcData_THROTTLE := 1700\<rparr>, example_inputs]
     (updateAltHoldState example_inputs (initial_state\<lparr>estimatedAltitude := 123\<rparr>)) =
     updateAltHoldState example_inputs (initial_state\<lparr>estimatedAltitude := 123\<rparr>) \<and>
   updateSonarAltHoldState example_inputs (initial_state\<lparr>estimatedAltitude := 123\<rparr>) =
     initial_state\<lparr>estimatedAltitude := 123, SONAR_MODE := True, AltHold := 123,
       initialThrottleHold := 1500\<rparr> \<and>
   updateSonarAltHoldState (example_inputs\<lparr>rcData_THROTTLE := 1700\<rparr>)
     (initial_state\<lparr>estimatedAltitude := 456, SONAR_MODE := True\<rparr>) =
     initial_state\<lparr>estimatedAltitude := 456, SONAR_MODE := True\<rparr> \<and>
   fold updateSonarAltHoldState [example_inputs\<lparr>rcData_THROTTLE := 1700\<rparr>, example_inputs]
     (updateSonarAltHoldState example_inputs (initial_state\<lparr>estimatedAltitude := 123\<rparr>)) =
     updateSonarAltHoldState example_inputs (initial_state\<lparr>estimatedAltitude := 123\<rparr>)"
  using hold_engagement_latches_once
          [of example_inputs "initial_state\<lparr>estimatedAltitude := 123\<rparr>"
              "[example_inputs\<lparr>rcData_THROTTLE := 1700\<rparr>, example_inputs]"]
        hold_engagement_latches_once
          [of "example_inputs\<lparr>rcData_THROTTLE := 1700\<rparr>"
              "initial_state\<lparr>estimatedAltitude := 456, BARO_MODE := True\<rparr>" "[]"]
        hold_engagement_latches_once
          [of "example_inputs\<lparr>rcData_THROTTLE := 1700\<rparr>"
              "initial_state\<lparr>estimatedAltitude := 456, SONAR_MODE := True\<rparr>" "[]"]
  by (simp add: example_inputs_def initial_state_def updateAltHoldState_def
        updateSonarAltHoldState_def)

subsection \<open>The controller\<close>

text \<open>C10: \<^verbatim>\<open>isThrustFacingDownwards\<close> holds exactly when the magnitudes of roll and of
  pitch are both below 800 decidegrees; when it does not hold,
  \<^verbatim>\<open>calculateAltHoldThrottleAdjustment\<close> returns 0 and leaves the whole state, the
  integrator \<open>errorVelocityI\<close> included, as it was.\<close>

theorem thrust_gate:
  "(isThrustFacingDownwards inp \<longleftrightarrow>
      \<bar>sint (attitude_roll inp)\<bar> < 800 \<and> \<bar>sint (attitude_pitch inp)\<bar> < 800) \<and>
   (\<not> isThrustFacingDownwards inp \<longrightarrow>
      calculateAltHoldThrottleAdjustment cfg inp vel_tmp accZ_tmp accZ_old' s = (0, s))"
  by (simp add: isThrustFacingDownwards_def ABS_abs calculateAltHoldThrottleAdjustment_def)

theorem thrust_gate_witness:
  "\<not> isThrustFacingDownwards (example_inputs\<lparr>attitude_roll := 800\<rparr>) \<and>
   \<not> isThrustFacingDownwards (example_inputs\<lparr>attitude_pitch := - 800\<rparr>) \<and>
   isThrustFacingDownwards (example_inputs\<lparr>attitude_roll := 799, attitude_pitch := - 799\<rparr>) \<and>
   calculateAltHoldThrottleAdjustment example_config (example_inputs\<lparr>attitude_roll := 800\<rparr>)
       22 0 0 (initial_state\<lparr>errorVelocityI := 4711\<rparr>) =
     (0, initial_state\<lparr>errorVelocityI := 4711\<rparr>)"
  using thrust_gate [of "example_inputs\<lparr>attitude_roll := 800\<rparr>" example_config 22 0 0
                        "initial_state\<lparr>errorVelocityI := 4711\<rparr>"]
        thrust_gate [of "example_inputs\<lparr>attitude_pitch := - 800\<rparr>"]
        thrust_gate [of "example_inputs\<lparr>attitude_roll := 799, attitude_pitch := - 799\<rparr>"]
  by (simp add: example_inputs_def)

text \<open>C8: when velocity control is not active, the target velocity of the outer stage is
  \<open>clamp (P_alt * deadband (clamp (AltHold - estimatedAltitude, -500, 500), 10) / 128,
  -300, 300)\<close>; for \<open>AltHold = 1000\<close> and \<open>estimatedAltitude = 400\<close> the error clamps to 500,
  the deadband makes it 490, and the target velocity is \<open>P_alt * 490 / 128\<close> clamped to
  \<open>\<plusminus>300\<close>.\<close>

theorem outer_stage_target_velocity:
  "(velocityControl s = 0 \<longrightarrow>
      altHoldSetVel cfg s =
        spec_targetVelocity (uint (P8_PIDALT cfg)) (AltHold s) (estimatedAltitude s)) \<and>
   (velocityControl s = 0 \<and> isThrustFacingDownwards inp \<longrightarrow>
      errorVelocityI (snd (calculateAltHoldThrottleAdjustment cfg inp vel_tmp accZ_tmp accZ_old' s)) =
        constrain
          (errorVelocityI s + uint (I8_PIDVEL cfg) *
             (spec_targetVelocity (uint (P8_PIDALT cfg)) (AltHold s) (estimatedAltitude s) -
              vel_tmp))
          (- (8192 * 200)) (8192 * 200)) \<and>
   (velocityControl s = 0 \<and> AltHold s = 1000 \<and> estimatedAltitude s = 400 \<longrightarrow>
      constrain (AltHold s - estimatedAltitude s) (- 500) 500 = 500 \<and>
      applyDeadband 500 10 = 490 \<and>
      altHoldSetVel cfg s = constrain (uint (P8_PIDALT cfg) * 490 div 128) (- 300) 300)"
proof -
  have v: "velocityControl s = 0 \<Longrightarrow>
      altHoldSetVel cfg s =
        spec_targetVelocity (uint (P8_PIDALT cfg)) (AltHold s) (estimatedAltitude s)"
    by (simp add: altHoldSetVel_def spec_targetVelocity_def constrain_spec_clamp
          applyDeadband_spec_deadband)
  have i: "isThrustFacingDownwards inp \<Longrightarrow>
      errorVelocityI (snd (calculateAltHoldThrottleAdjustment cfg inp vel_tmp accZ_tmp accZ_old' s)) =
        constrain (errorVelocityI s + uint (I8_PIDVEL cfg) * (altHoldSetVel cfg s - vel_tmp))
          (- (8192 * 200)) (8192 * 200)"
    by (simp add: calculateAltHoldThrottleAdjustment_def Let_def)
  have e: "velocityControl s = 0 \<Longrightarrow> AltHold s = 1000 \<Longrightarrow> estimatedAltitude s = 400 \<Longrightarrow>
      constrain (AltHold s - estimatedAltitude s) (- 500) 500 = 500 \<and>
      applyDeadband 500 10 = 490 \<and>
      altHoldSetVel cfg s = constrain (uint (P8_PIDALT cfg) * 490 div 128) (- 300) 300"
    using v
    by (simp add: spec_targetVelocity_def constrain_spec_clamp)
       (simp add: spec_clamp_def spec_deadband_def applyDeadband_def ABS_def div_trunc_pos)
  show ?thesis
    using v i e by simp
qed

theorem outer_stage_target_velocity_witness:
  "velocityControl (initial_state\<lparr>AltHold := 1000, estimatedAltitude := 400\<rparr>) = 0 \<and>
   isThrustFacingDownwards example_inputs \<and>
   altHoldSetVel example_config (initial_state\<lparr>AltHold := 1000, estimatedAltitude := 400\<rparr>) =
     191 \<and>
   spec_targetVelocity 50 1000 400 = 191 \<and>
   errorVelocityI
     (snd (calculateAltHoldThrottleAdjustment example_config example_inputs 91 0 0
             (initial_state\<lparr>AltHold := 1000, estimatedAltitude := 400\<rparr>))) = 4500"
  using outer_stage_target_velocity
          [of "initial_state\<lparr>AltHold := 1000, estimatedAltitude := 400\<rparr>" example_config
              example_inputs 91 0 0]
  by (simp add: example_config_def example_inputs_def initial_state_def constrain_def
        isThrustFacingDownwards_def ABS_def)

text \<open>C7: the value \<^verbatim>\<open>calculateAltHoldThrottleAdjustment\<close> returns is the sum of three
  clamped terms and is not clamped itself; its magnitude never exceeds
  \<open>300 + 200 + 150 = 650\<close>, for every input and every value of the integrator on entry.\<close>

theorem throttle_adjustment_bounded:
  "\<bar>fst (calculateAltHoldThrottleAdjustment cfg inp vel_tmp accZ_tmp accZ_old' s)\<bar> \<le> 650"
proof (cases "isThrustFacingDownwards inp")
  case False
  then show ?thesis by (simp add: calculateAltHoldThrottleAdjustment_def)
next
  case True
  define e where "e = altHoldSetVel cfg s - vel_tmp"
  define p where "p = constrain (div_trunc (uint (P8_PIDVEL cfg) * e) 32) (- 300) 300"
  define i where
    "i = constrain (errorVelocityI s + uint (I8_PIDVEL cfg) * e) (- (8192 * 200)) (8192 * 200)"
  define d where
    "d = constrain (float_to_int (of_int (uint (D8_PIDVEL cfg)) * (accZ_tmp + accZ_old') / 512))
           (- 150) 150"
  have r: "fst (calculateAltHoldThrottleAdjustment cfg inp vel_tmp accZ_tmp accZ_old' s) =
           p + div_trunc i 8192 - d"
    using True
    by (simp add: calculateAltHoldThrottleAdjustment_def Let_def e_def p_def i_def d_def)
  have pb: "- 300 \<le> p \<and> p \<le> 300"
    unfolding p_def by (rule constrain_bounds) simp
  have ib: "- 1638400 \<le> i \<and> i \<le> 1638400"
    using constrain_bounds [of "- (8192 * 200)" "8192 * 200"] unfolding i_def by simp
  have db: "- 150 \<le> d \<and> d \<le> 150"
    unfolding d_def by (rule constrain_bounds) simp
  from ib have "- 200 \<le> div_trunc i 8192 \<and> div_trunc i 8192 \<le> 200"
    by (simp add: div_trunc_8192_bound)
  with pb db show ?thesis unfolding r by linarith
qed

subsection \<open>The velocity integrator\<close>

lemma applyAltHold_errorVelocityI:
  "errorVelocityI (applyAltHold cfg inp s) = 0 \<or>
   errorVelocityI (applyAltHold cfg inp s) = errorVelocityI s"
  by (simp add: applyAltHold_def applyFixedWingAltHold_def applyMultirotorAltHold_def Let_def)

lemma updateAltHoldState_errorVelocityI:
  "errorVelocityI (updateAltHoldState inp s) = 0 \<or>
   errorVelocityI (updateAltHoldState inp s) = errorVelocityI s"
  by (simp add: updateAltHoldState_def)

lemma updateSonarAltHoldState_errorVelocityI:
  "errorVelocityI (updateSonarAltHoldState inp s) = 0 \<or>
   errorVelocityI (updateSonarAltHoldState inp s) = errorVelocityI s"
  by (simp add: updateSonarAltHoldState_def)

lemma controller_errorVelocityI:
  "errorVelocityI_in_range s \<Longrightarrow>
   errorVelocityI_in_range (snd (calculateAltHoldThrottleAdjustment cfg inp v a b s))"
  by (simp add: calculateAltHoldThrottleAdjustment_def errorVelocityI_in_range_def Let_def
        constrain_def)

lemma controller_changes_integrator_only:
  "snd (calculateAltHoldThrottleAdjustment cfg inp v a b s) =
   s\<lparr>errorVelocityI :=
       errorVelocityI (snd (calculateAltHoldThrottleAdjustment cfg inp v a b s))\<rparr>"
  by (simp add: calculateAltHoldThrottleAdjustment_def Let_def)

lemma baroStage_errorVelocityI:
  "errorVelocityI (snd (estimatorBaroStage inp s)) = errorVelocityI s"
  by (simp add: estimatorBaroStage_def)

lemma sonarStage_errorVelocityI:
  "errorVelocityI (estimatorSonarStage cfg inp baroAlt s) = errorVelocityI s"
  by (simp add: estimatorSonarStage_def Let_def)

lemma accStage_errorVelocityI:
  "errorVelocityI (snd (estimatorAccStage cfg inp baroAlt s)) = errorVelocityI s"
  by (simp add: estimatorAccStage_def Let_def)

lemma debugStage_errorVelocityI:
  "estimatorDebugStage inp s = Inr s' \<Longrightarrow> errorVelocityI s' = errorVelocityI s"
  by (auto simp: estimatorDebugStage_def split: if_splits)

lemma velocityStage_errorVelocityI:
  assumes "errorVelocityI_in_range s"
  shows "errorVelocityI_in_range (estimatorVelocityStage cfg inp dTime baroAlt accZ_tmp s)"
proof (cases "sensors_BARO inp \<and> \<not> isBaroCalibrationComplete_277 inp")
  case True
  then show ?thesis using assms by (simp add: estimatorVelocityStage_def)
next
  case False
  obtain baroVel s1 where b:
    "(if sensors_BARO inp then
        (let baroVel = float_to_int
               (real_of_int (baroAlt - lastBaroAlt s) * 1000000 / real (unat dTime));
             baroVel = constrain baroVel (- 1500) 1500
         in (applyDeadband baroVel 10, s\<lparr>lastBaroAlt := baroAlt\<rparr>))
      else (0, s)) = (baroVel, s1)"
    by fastforce
  then have s1: "errorVelocityI s1 = errorVelocityI s"
    by (auto simp: Let_def split: if_splits)
  define v where "v = vel s1 * baro_cf_vel cfg + real_of_int baroVel * (1 - baro_cf_vel cfg)"
  define s3 where "s3 = s1\<lparr>vel := v, estimatedVario := applyDeadband (lrintf v) 5\<rparr>"
  have "errorVelocityI_in_range s3"
    using assms s1 by (simp add: s3_def errorVelocityI_in_range_def)
  then have c: "errorVelocityI_in_range
      (snd (calculateAltHoldThrottleAdjustment cfg inp (lrintf v) accZ_tmp (accZ_old s3) s3))"
    by (rule controller_errorVelocityI)
  show ?thesis
    using False c unfolding estimatorVelocityStage_def b
    by (auto simp: Let_def s3_def v_def split_beta errorVelocityI_in_range_def)
qed

lemma calculateEstimatedAltitude_errorVelocityI:
  assumes "errorVelocityI_in_range s" "calculateEstimatedAltitude cfg inp t s = Inr s'"
  shows "errorVelocityI_in_range s'"
proof (cases "t - previousTimeUs s < 25000")
  case True
  then show ?thesis using assms by (simp add: calculateEstimatedAltitude_def)
next
  case False
  define s0 where "s0 = s\<lparr>previousTimeUs := t\<rparr>"
  obtain baroAlt s1 where b: "estimatorBaroStage inp s0 = (baroAlt, s1)" by fastforce
  define s2 where "s2 = estimatorSonarStage cfg inp baroAlt s1"
  obtain accZ_tmp s3 where a: "estimatorAccStage cfg inp baroAlt s2 = (accZ_tmp, s3)"
    by fastforce
  from assms(2) False b a obtain s4 where s4: "estimatorDebugStage inp s3 = Inr s4"
    and r: "s' = estimatorVelocityStage cfg inp (t - previousTimeUs s) baroAlt accZ_tmp
                   (imuResetAccelerationSum s4)"
    by (auto simp: calculateEstimatedAltitude_def Let_def s0_def s2_def split: sum.splits)
  have "errorVelocityI s1 = errorVelocityI s"
    using baroStage_errorVelocityI [of inp s0] b by (simp add: s0_def)
  moreover have "errorVelocityI s2 = errorVelocityI s1"
    unfolding s2_def by (rule sonarStage_errorVelocityI)
  moreover have "errorVelocityI s3 = errorVelocityI s2"
    using accStage_errorVelocityI [of cfg inp baroAlt s2] a by simp
  moreover have "errorVelocityI s4 = errorVelocityI s3"
    using s4 by (rule debugStage_errorVelocityI)
  ultimately have "errorVelocityI_in_range (imuResetAccelerationSum s4)"
    using assms(1) by (simp add: errorVelocityI_in_range_def imuResetAccelerationSum_def)
  then show ?thesis unfolding r by (rule velocityStage_errorVelocityI)
qed

lemma step_errorVelocityI:
  assumes "errorVelocityI_in_range s" "step cfg c s = Inr s'"
  shows "errorVelocityI_in_range s'"
proof (cases c)
  case (Pair inp k)
  show ?thesis
  proof (cases k)
    case ApplyAltHold
    then show ?thesis
      using assms Pair applyAltHold_errorVelocityI [of cfg inp s]
      by (auto simp: errorVelocityI_in_range_def)
  next
    case UpdateAltHoldState
    then show ?thesis
      using assms Pair updateAltHoldState_errorVelocityI [of inp s]
      by (auto simp: errorVelocityI_in_range_def)
  next
    case UpdateSonarAltHoldState
    then show ?thesis
      using assms Pair updateSonarAltHoldState_errorVelocityI [of inp s]
      by (auto simp: errorVelocityI_in_range_def)
  next
    case (CalculateAltHoldThrottleAdjustment v a b)
    then show ?thesis
      using assms Pair controller_errorVelocityI [of s cfg inp v a b] by auto
  next
    case (CalculateEstimatedAltitude t)
    then show ?thesis
      using assms Pair calculateEstimatedAltitude_errorVelocityI [of s cfg inp t s'] by simp
  next
    case (OtherModules throttle pitch sumZ cnt tsum)
    then show ?thesis
      using assms Pair by (auto simp: errorVelocityI_in_range_def)
  qed
qed

lemma run_errorVelocityI:
  "errorVelocityI_in_range s \<Longrightarrow> run cfg cs s = Inr s' \<Longrightarrow> errorVelocityI_in_range s'"
proof (induction cs arbitrary: s)
  case Nil
  then show ?case by simp
next
  case (Cons c cs)
  then show ?case
    by (auto split: sum.splits dest: step_errorVelocityI)
qed

lemma example_tick:
  "calculateEstimatedAltitude example_config example_inputs 30000
     (initial_state\<lparr>BARO_MODE := True, initialThrottleHold := 1500\<rparr>) =
   Inr (initial_state\<lparr>BARO_MODE := True, initialThrottleHold := 1500,
          previousTimeUs := 30000, estimatedAltitude := 400, lastBaroAlt := 400,
          vel := 745, estimatedVario := 740, errorVelocityI := - 40365,
          altHoldThrottleAdjustment := - 304\<rparr>)"
  apply (simp add: calculateEstimatedAltitude_def estimatorBaroStage_def estimatorSonarStage_def
      estimatorAccStage_def estimatorDebugStage_def imuResetAccelerationSum_def
      example_inputs_def example_config_def initial_state_def)
  apply (simp add: estimatorVelocityStage_def float_to_int_def constrain_def applyDeadband_def
      ABS_def lrintf_def)
  apply (simp add: calculateAltHoldThrottleAdjustment_def altHoldSetVel_def
      isThrustFacingDownwards_def constrain_def applyDeadband_def ABS_def div_trunc_def
      float_to_int_def Let_def)
  done

text \<open>C6: the velocity integrator \<open>errorVelocityI\<close> is 0 at start-up, and every sequence
  of calls of the functions of the file, with any answers of the collaborators and any
  writes of other modules to their own variables in between, started in a state where it
  is within \<open>\<plusminus>(8192 * 200) = \<plusminus>1638400\<close>, ends in such a state.\<close>

theorem errorVelocityI_always_bounded:
  "errorVelocityI initial_state = 0 \<and>
   (- (8192 * 200) \<le> errorVelocityI s0 \<and> errorVelocityI s0 \<le> 8192 * 200 \<and>
    run cfg calls s0 = Inr s \<longrightarrow>
      - (8192 * 200) \<le> errorVelocityI s \<and> errorVelocityI s \<le> 8192 * 200)"
  using run_errorVelocityI [of s0 cfg calls s]
  by (simp add: errorVelocityI_in_range_def initial_state_def)

theorem errorVelocityI_always_bounded_witness:
  "run example_config
     [(example_inputs, UpdateAltHoldState),
      (example_inputs, CalculateEstimatedAltitude 30000)] initial_state =
   Inr (initial_state\<lparr>BARO_MODE := True, initialThrottleHold := 1500,
          previousTimeUs := 30000, estimatedAltitude := 400, lastBaroAlt := 400,
          vel := 745, estimatedVario := 740, errorVelocityI := - 40365,
          altHoldThrottleAdjustment := - 304\<rparr>) \<and>
   - (8192 * 200) \<le> (- 40365 :: int) \<and> (- 40365 :: int) \<le> 8192 * 200"
proof -
  have u: "updateAltHoldState example_inputs initial_state =
           initial_state\<lparr>BARO_MODE := True, initialThrottleHold := 1500\<rparr>"
    by (simp add: updateAltHoldState_def example_inputs_def initial_state_def)
  have r: "run example_config
     [(example_inputs, UpdateAltHoldState),
      (example_inputs, CalculateEstimatedAltitude 30000)] initial_state =
   Inr (initial_state\<lparr>BARO_MODE := True, initialThrottleHold := 1500,
          previousTimeUs := 30000, estimatedAltitude := 400, lastBaroAlt := 400,
          vel := 745, estimatedVario := 740, errorVelocityI := - 40365,
          altHoldThrottleAdjustment := - 304\<rparr>)"
    by (simp add: u example_tick)
  show ?thesis
    using r errorVelocityI_always_bounded [of initial_state example_config
        "[(example_inputs, UpdateAltHoldState),
          (example_inputs, CalculateEstimatedAltitude 30000)]"
        "initial_state\<lparr>BARO_MODE := True, initialThrottleHold := 1500,
          previousTimeUs := 30000, estimatedAltitude := 400, lastBaroAlt := 400,
          vel := 745, estimatedVario := 740, errorVelocityI := - 40365,
          altHoldThrottleAdjustment := - 304\<rparr>"]
    by (simp add: initial_state_def)
qed

subsection \<open>The command channels\<close>

text \<open>C2 (amended): on a rotary-wing craft, in slow mode and in fast mode while the stick
  deviation is within the deadband, \<^verbatim>\<open>applyAltHold\<close> sets \<^verbatim>\<open>rcCommand[THROTTLE]\<close> to
  \<open>constrain (initialThrottleHold + altHoldThrottleAdjustment) PWM_RANGE_MIN
  PWM_RANGE_MAX\<close>, which lies within the command range; in the fast-change branch taken
  when the stick deviates by more than the deadband, it shifts the incoming
  \<^verbatim>\<open>rcCommand[THROTTLE]\<close> by the deadband and does not clamp it; on a fixed-wing craft it
  adds the adjustment, with the configured sign, to \<^verbatim>\<open>rcCommand[PITCH]\<close> and does not
  clamp it.\<close>

theorem applyAltHold_command_range:
  "(\<not> STATE_FIXED_WING inp \<and>
    \<not> (alt_hold_fast_change cfg \<noteq> 0 \<and>
       uint (alt_hold_deadband cfg) <
         \<bar>sint (rcData_THROTTLE inp) - sint (initialThrottleHold s)\<bar>) \<longrightarrow>
      rcCommand_THROTTLE (applyAltHold cfg inp s) =
        constrain (sint (initialThrottleHold s) + altHoldThrottleAdjustment s)
          (PWM_RANGE_MIN cfg) (PWM_RANGE_MAX cfg) \<and>
      (PWM_RANGE_MIN cfg \<le> PWM_RANGE_MAX cfg \<longrightarrow>
         PWM_RANGE_MIN cfg \<le> rcCommand_THROTTLE (applyAltHold cfg inp s) \<and>
         rcCommand_THROTTLE (applyAltHold cfg inp s) \<le> PWM_RANGE_MAX cfg)) \<and>
   (\<not> STATE_FIXED_WING inp \<and> alt_hold_fast_change cfg \<noteq> 0 \<and>
    uint (alt_hold_deadband cfg) <
      \<bar>sint (rcData_THROTTLE inp) - sint (initialThrottleHold s)\<bar> \<longrightarrow>
      rcCommand_THROTTLE (applyAltHold cfg inp s) =
        rcCommand_THROTTLE s +
          (if sint (rcData_THROTTLE inp) > sint (initialThrottleHold s)
           then - uint (alt_hold_deadband cfg) else uint (alt_hold_deadband cfg))) \<and>
   (STATE_FIXED_WING inp \<longrightarrow>
      rcCommand_PITCH (applyAltHold cfg inp s) =
        rcCommand_PITCH s +
          altHoldThrottleAdjustment s * GET_DIRECTION (fixedwing_althold_reversed cfg) \<and>
      rcCommand_THROTTLE (applyAltHold cfg inp s) = rcCommand_THROTTLE s)"
proof -
  have c: "PWM_RANGE_MIN cfg \<le> PWM_RANGE_MAX cfg \<Longrightarrow>
        PWM_RANGE_MIN cfg \<le>
          constrain (sint (initialThrottleHold s) + altHoldThrottleAdjustment s)
            (PWM_RANGE_MIN cfg) (PWM_RANGE_MAX cfg) \<and>
        constrain (sint (initialThrottleHold s) + altHoldThrottleAdjustment s)
          (PWM_RANGE_MIN cfg) (PWM_RANGE_MAX cfg) \<le> PWM_RANGE_MAX cfg"
    by (rule constrain_bounds)
  have a: "\<not> STATE_FIXED_WING inp \<Longrightarrow>
    \<not> (alt_hold_fast_change cfg \<noteq> 0 \<and>
       uint (alt_hold_deadband cfg) <
         \<bar>sint (rcData_THROTTLE inp) - sint (initialThrottleHold s)\<bar>) \<Longrightarrow>
      rcCommand_THROTTLE (applyAltHold cfg inp s) =
        constrain (sint (initialThrottleHold s) + altHoldThrottleAdjustment s)
          (PWM_RANGE_MIN cfg) (PWM_RANGE_MAX cfg)"
    by (auto simp: applyAltHold_def applyMultirotorAltHold_def Let_def ABS_abs)
  have b: "\<not> STATE_FIXED_WING inp \<Longrightarrow> alt_hold_fast_change cfg \<noteq> 0 \<Longrightarrow>
    uint (alt_hold_deadband cfg) <
      \<bar>sint (rcData_THROTTLE inp) - sint (initialThrottleHold s)\<bar> \<Longrightarrow>
      rcCommand_THROTTLE (applyAltHold cfg inp s) =
        rcCommand_THROTTLE s +
          (if sint (rcData_THROTTLE inp) > sint (initialThrottleHold s)
           then - uint (alt_hold_deadband cfg) else uint (alt_hold_deadband cfg))"
    by (auto simp: applyAltHold_def applyMultirotorAltHold_def Let_def ABS_abs)
  have f: "STATE_FIXED_WING inp \<Longrightarrow>
      rcCommand_PITCH (applyAltHold cfg inp s) =
        rcCommand_PITCH s +
          altHoldThrottleAdjustment s * GET_DIRECTION (fixedwing_althold_reversed cfg) \<and>
      rcCommand_THROTTLE (applyAltHold cfg inp s) = rcCommand_THROTTLE s"
    by (simp add: applyAltHold_def applyFixedWingAltHold_def)
  show ?thesis
    using a b c f by (metis (no_types, lifting))
qed

theorem applyAltHold_command_range_witness:
  "rcCommand_THROTTLE
     (applyAltHold example_config example_inputs
        (initial_state\<lparr>initialThrottleHold := 1500, altHoldThrottleAdjustment := 650,
           rcCommand_THROTTLE := 1510\<rparr>)) = 2000 \<and>
   rcCommand_THROTTLE
     (applyAltHold (example_config\<lparr>alt_hold_fast_change := 0\<rparr>)
        (example_inputs\<lparr>rcData_THROTTLE := 1600\<rparr>)
        (initial_state\<lparr>initialThrottleHold := 1500, altHoldThrottleAdjustment := - 650,
           rcCommand_THROTTLE := 1510\<rparr>)) = 1000 \<and>
   rcCommand_THROTTLE
     (applyAltHold example_config (example_inputs\<lparr>rcData_THROTTLE := 1600\<rparr>)
        (initial_state\<lparr>initialThrottleHold := 1500, rcCommand_THROTTLE := 1020\<rparr>)) = 980 \<and>
   rcCommand_PITCH
     (applyAltHold example_config (example_inputs\<lparr>STATE_FIXED_WING := True\<rparr>)
        (initial_state\<lparr>altHoldThrottleAdjustment := 650, rcCommand_PITCH := 100\<rparr>)) = 750"
  using applyAltHold_command_range [of example_inputs example_config
          "initial_state\<lparr>initialThrottleHold := 1500, altHoldThrottleAdjustment := 650,
             rcCommand_THROTTLE := 1510\<rparr>"]
        applyAltHold_command_range [of "example_inputs\<lparr>rcData_THROTTLE := 1600\<rparr>"
          "example_config\<lparr>alt_hold_fast_change := 0\<rparr>"
          "initial_state\<lparr>initialThrottleHold := 1500, altHoldThrottleAdjustment := - 650,
             rcCommand_THROTTLE := 1510\<rparr>"]
        applyAltHold_command_range [of "example_inputs\<lparr>rcData_THROTTLE := 1600\<rparr>"
          example_config
          "initial_state\<lparr>initialThrottleHold := 1500, rcCommand_THROTTLE := 1020\<rparr>"]
        applyAltHold_command_range [of "example_inputs\<lparr>STATE_FIXED_WING := True\<rparr>"
          example_config
          "initial_state\<lparr>altHoldThrottleAdjustment := 650, rcCommand_PITCH := 100\<rparr>"]
  by (simp add: example_config_def example_inputs_def initial_state_def constrain_def
        GET_DIRECTION_def)

text \<open>C2 as stated fails: rotary wing, fast change, hold engaged at throttle 1500, stick
  at 1600 (beyond the deadband of 40), incoming throttle command 1020; the command becomes
  980, below \<^verbatim>\<open>PWM_RANGE_MIN\<close> = 1000.\<close>

theorem applyAltHold_fast_change_unclamped:
  "\<not> (PWM_RANGE_MIN example_config \<le>
        rcCommand_THROTTLE
          (applyAltHold example_config (example_inputs\<lparr>rcData_THROTTLE := 1600\<rparr>)
             (initial_state\<lparr>initialThrottleHold := 1500, rcCommand_THROTTLE := 1020\<rparr>)) \<and>
      rcCommand_THROTTLE
          (applyAltHold example_config (example_inputs\<lparr>rcData_THROTTLE := 1600\<rparr>)
             (initial_state\<lparr>initialThrottleHold := 1500, rcCommand_THROTTLE := 1020\<rparr>))
        \<le> PWM_RANGE_MAX example_config)"
  by (simp add: applyAltHold_def applyMultirotorAltHold_def ABS_def example_config_def
        example_inputs_def initial_state_def)

subsection \<open>Accepted ticks of the estimator\<close>

lemma velocityStage_estimatedAltitude:
  "estimatedAltitude (estimatorVelocityStage cfg inp dTime baroAlt accZ_tmp s) =
   estimatedAltitude s"
proof -
  have c: "\<And>v a b s.
      estimatedAltitude (snd (calculateAltHoldThrottleAdjustment cfg inp v a b s)) =
      estimatedAltitude s"
    by (subst controller_changes_integrator_only) simp
  show ?thesis
    by (simp add: estimatorVelocityStage_def Let_def split_beta c)
qed

lemma velocityStage_accAlt:
  "accAlt (estimatorVelocityStage cfg inp dTime baroAlt accZ_tmp s) = accAlt s"
proof -
  have c: "\<And>v a b s.
      accAlt (snd (calculateAltHoldThrottleAdjustment cfg inp v a b s)) = accAlt s"
    by (subst controller_changes_integrator_only) simp
  show ?thesis
    by (simp add: estimatorVelocityStage_def Let_def split_beta c)
qed

lemma sonarStage_in_band:
  assumes "sonarInBand inp" "sonarCfAltCm inp \<noteq> sonarMaxAltWithTiltCm inp"
  shows "estimatorSonarStage cfg inp baroAlt s =
     s\<lparr>estimatedAltitude :=
         float_to_int (float_blend (sonarCalculateAltitude inp) baroAlt
           (float_sonarTransition (sonarCalculateAltitude inp) (sonarCfAltCm inp)
              (sonarMaxAltWithTiltCm inp)))\<rparr>"
  using assms
  by (simp add: estimatorSonarStage_def sonarInBand_def Let_def float_blend_def
        float_sonarTransition_def)

lemma sonarStage_zero_width:
  assumes "sonarInBand inp" "sonarCfAltCm inp = sonarMaxAltWithTiltCm inp"
  shows "estimatorSonarStage cfg inp baroAlt s =
     s\<lparr>estimatedAltitude := float_nan_to_int cfg\<rparr>"
  using assms
  by (simp add: estimatorSonarStage_def sonarInBand_def Let_def)

lemma sonarStage_out_of_band:
  assumes "\<not> sonarInBand inp"
  shows "estimatorSonarStage cfg inp baroAlt s = s"
  using assms
  by (auto simp: estimatorSonarStage_def sonarInBand_def Let_def)

text \<open>The ranging stage writes the estimate and nothing else.\<close>

lemma sonarStage_changes_estimate_only:
  "estimatorSonarStage cfg inp baroAlt s =
   s\<lparr>estimatedAltitude := estimatedAltitude (estimatorSonarStage cfg inp baroAlt s)\<rparr>"
  by (simp add: estimatorSonarStage_def Let_def)

lemma debugStage_returns:
  assumes "\<not> (debugMode_ALTITUDE inp \<and> accSumCount s = 0)"
  shows "\<exists>s'. estimatorDebugStage inp s = Inr s' \<and>
      estimatedAltitude s' = estimatedAltitude s \<and>
      vel s' = vel s \<and> accAlt s' = accAlt s \<and> estimatedVario s' = estimatedVario s \<and>
      altHoldThrottleAdjustment s' = altHoldThrottleAdjustment s \<and>
      errorVelocityI s' = errorVelocityI s \<and>
      baroCalibrationCycles s' = baroCalibrationCycles s \<and>
      lastBaroAlt s' = lastBaroAlt s \<and> accZ_old s' = accZ_old s \<and>
      previousTimeUs s' = previousTimeUs s"
  using assms by (auto simp: estimatorDebugStage_def)

lemma accStage_absent: "\<not> sensors_ACC inp \<Longrightarrow> estimatorAccStage cfg inp baroAlt s = (0, s)"
  by (simp add: estimatorAccStage_def)

text \<open>The accelerometer stage publishes its accumulator; with a mean acceleration of 0
  it adds nothing to the velocity.\<close>

lemma accStage_present:
  assumes "sensors_ACC inp"
  shows "estimatedAltitude (snd (estimatorAccStage cfg inp baroAlt s)) =
           float_to_int (accAlt (snd (estimatorAccStage cfg inp baroAlt s)))"
    and "accSumCount s = 0 \<or> accSum_Z s = 0 \<Longrightarrow>
         vel (snd (estimatorAccStage cfg inp baroAlt s)) = vel s \<and>
         accAlt (snd (estimatorAccStage cfg inp baroAlt s)) =
           (accAlt s + vel s * (real (unat (accTimeSum s)) * (1 / 1000000))) * baro_cf_alt cfg +
           real_of_int baroAlt * (1 - baro_cf_alt cfg)"
    and "accSumCount (snd (estimatorAccStage cfg inp baroAlt s)) = accSumCount s"
    and "baroCalibrationCycles (snd (estimatorAccStage cfg inp baroAlt s)) =
           baroCalibrationCycles s"
    and "estimatedVario (snd (estimatorAccStage cfg inp baroAlt s)) = estimatedVario s"
    and "altHoldThrottleAdjustment (snd (estimatorAccStage cfg inp baroAlt s)) =
           altHoldThrottleAdjustment s"
    and "errorVelocityI (snd (estimatorAccStage cfg inp baroAlt s)) = errorVelocityI s"
  using assms by (auto simp: estimatorAccStage_def Let_def)

lemma float_to_int_of_int: "float_to_int (real_of_int i) = i"
  by (simp add: float_to_int_def)





subsection \<open>Division by the sample count\<close>

text \<open>The guard of line 255: without samples the mean acceleration is 0 and the
  accelerometer stage adds nothing to \<open>vel\<close>.\<close>

lemma accStage_no_samples:
  "sensors_ACC inp \<Longrightarrow> accSumCount s = 0 \<Longrightarrow>
   fst (estimatorAccStage cfg inp baroAlt s) = 0 \<and>
   vel (snd (estimatorAccStage cfg inp baroAlt s)) = vel s"
  by (simp add: estimatorAccStage_def Let_def)

text \<open>The debug tap of line 268 has no such guard: on every accepted tick with the
  altitude debug mode selected and no samples, the quotient \<^verbatim>\<open>accSum[2] / accSumCount\<close> is
  evaluated.\<close>

lemma debug_division_unguarded:
  assumes "\<not> currentTimeUs - previousTimeUs s < 25000"
    and "debugMode_ALTITUDE inp"
    and "accSumCount s = 0"
  shows "calculateEstimatedAltitude cfg inp currentTimeUs s = Inl IntegerDivisionByZero"
proof -
  obtain baroAlt s1 where
    b: "estimatorBaroStage inp (s\<lparr>previousTimeUs := currentTimeUs\<rparr>) = (baroAlt, s1)"
    by fastforce
  then have c1: "accSumCount s1 = 0"
    using assms(3) by (auto simp: estimatorBaroStage_def split: if_splits)
  define s2 where "s2 = estimatorSonarStage cfg inp baroAlt s1"
  have c2: "accSumCount s2 = 0"
    unfolding s2_def by (subst sonarStage_changes_estimate_only) (simp add: c1)
  obtain accZ_tmp s3 where a: "estimatorAccStage cfg inp baroAlt s2 = (accZ_tmp, s3)"
    by fastforce
  then have "accSumCount s3 = 0"
    using c2 by (auto simp: estimatorAccStage_def Let_def split: if_splits)
  then have "estimatorDebugStage inp s3 = Inl IntegerDivisionByZero"
    using assms(2) by (simp add: estimatorDebugStage_def)
  then show ?thesis
    using assms(1) b a by (simp add: calculateEstimatedAltitude_def Let_def s2_def)
qed

text \<open>C3 requires a tick with the accelerometer present and no accumulated samples to
  complete without a division by zero. The code does not: at start-up state (sample count
  0), with barometer and accelerometer present and the altitude debug mode selected, the
  first accepted tick passes the guarded mean of line 255 and then divides by the sample
  count at line 268.\<close>

theorem debug_tap_divides_by_zero_sample_count:
  "sensors_ACC (example_inputs\<lparr>sensors_ACC := True, debugMode_ALTITUDE := True\<rparr>) \<and>
   accSumCount initial_state = 0 \<and>
   \<not> (30000 :: 32 word) - previousTimeUs initial_state < 25000 \<and>
   calculateEstimatedAltitude example_config
     (example_inputs\<lparr>sensors_ACC := True, debugMode_ALTITUDE := True\<rparr>) 30000 initial_state =
   Inl IntegerDivisionByZero"
  by (simp add: calculateEstimatedAltitude_def estimatorBaroStage_def estimatorSonarStage_def
      estimatorAccStage_def estimatorDebugStage_def float_to_int_def
      example_inputs_def example_config_def initial_state_def)


subsection \<open>The blend of ranging and barometric altitude\<close>

lemma accepted_tick_without_accelerometer:
  assumes "\<not> currentTimeUs - previousTimeUs s < 25000"
    and "\<not> sensors_ACC inp"
    and "\<not> (debugMode_ALTITUDE inp \<and> accSumCount s = 0)"
  shows "\<exists>s'. calculateEstimatedAltitude cfg inp currentTimeUs s = Inr s' \<and>
      estimatedAltitude s' =
        (let baroAlt = (if sensors_BARO inp \<and> isBaroCalibrationComplete_226 inp
                        then baroCalculateAltitude inp else 0)
         in if sonarInBand inp
            then (if sonarCfAltCm inp \<noteq> sonarMaxAltWithTiltCm inp
                  then float_to_int (float_blend (sonarCalculateAltitude inp) baroAlt
                         (float_sonarTransition (sonarCalculateAltitude inp) (sonarCfAltCm inp)
                            (sonarMaxAltWithTiltCm inp)))
                  else float_nan_to_int cfg)
            else if sensors_BARO inp \<and> isBaroCalibrationComplete_226 inp then baroAlt
            else estimatedAltitude s)"
proof -
  obtain baroAlt s1 where
    b: "estimatorBaroStage inp (s\<lparr>previousTimeUs := currentTimeUs\<rparr>) = (baroAlt, s1)"
    by fastforce
  then have bv: "baroAlt = (if sensors_BARO inp \<and> isBaroCalibrationComplete_226 inp
                        then baroCalculateAltitude inp else 0)"
    and e1: "estimatedAltitude s1 =
               (if sensors_BARO inp \<and> isBaroCalibrationComplete_226 inp
                then baroAlt else estimatedAltitude s)"
    and c1: "accSumCount s1 = accSumCount s"
    by (auto simp: estimatorBaroStage_def split: if_splits)
  define s2 where "s2 = estimatorSonarStage cfg inp baroAlt s1"
  have e2: "estimatedAltitude s2 =
      (if sonarInBand inp
       then (if sonarCfAltCm inp \<noteq> sonarMaxAltWithTiltCm inp
             then float_to_int (float_blend (sonarCalculateAltitude inp) baroAlt
                    (float_sonarTransition (sonarCalculateAltitude inp) (sonarCfAltCm inp)
                       (sonarMaxAltWithTiltCm inp)))
             else float_nan_to_int cfg)
       else estimatedAltitude s1)"
    unfolding s2_def
    by (simp add: sonarStage_out_of_band sonarStage_in_band sonarStage_zero_width)
  have c2: "accSumCount s2 = accSumCount s"
    unfolding s2_def by (subst sonarStage_changes_estimate_only) (simp add: c1)
  have a: "estimatorAccStage cfg inp baroAlt s2 = (0, s2)"
    using assms(2) by (rule accStage_absent)
  obtain s4 where s4: "estimatorDebugStage inp s2 = Inr s4"
    and e4: "estimatedAltitude s4 = estimatedAltitude s2"
    using debugStage_returns [of inp s2] assms(3) c2 by auto
  have r: "calculateEstimatedAltitude cfg inp currentTimeUs s =
      Inr (estimatorVelocityStage cfg inp (currentTimeUs - previousTimeUs s) baroAlt 0
             (imuResetAccelerationSum s4))"
    using assms(1) b a s4
    by (simp add: calculateEstimatedAltitude_def Let_def s2_def)
  show ?thesis
    unfolding r
    using e4 e2 e1 bv
    by (simp add: velocityStage_estimatedAltitude imuResetAccelerationSum_def Let_def)
qed

lemma accepted_tick_with_accelerometer:
  assumes "\<not> currentTimeUs - previousTimeUs s < 25000"
    and "sensors_ACC inp"
    and "\<not> (debugMode_ALTITUDE inp \<and> accSumCount s = 0)"
  shows "\<exists>s'. calculateEstimatedAltitude cfg inp currentTimeUs s = Inr s' \<and>
      estimatedAltitude s' = float_to_int (accAlt s')"
proof -
  obtain baroAlt s1 where
    b: "estimatorBaroStage inp (s\<lparr>previousTimeUs := currentTimeUs\<rparr>) = (baroAlt, s1)"
    by fastforce
  then have c1: "accSumCount s1 = accSumCount s"
    by (auto simp: estimatorBaroStage_def split: if_splits)
  define s2 where "s2 = estimatorSonarStage cfg inp baroAlt s1"
  have c2: "accSumCount s2 = accSumCount s"
    unfolding s2_def by (subst sonarStage_changes_estimate_only) (simp add: c1)
  obtain accZ_tmp s3 where a: "estimatorAccStage cfg inp baroAlt s2 = (accZ_tmp, s3)"
    by fastforce
  then have s3: "s3 = snd (estimatorAccStage cfg inp baroAlt s2)" by simp
  have c3: "accSumCount s3 = accSumCount s"
    and e3: "estimatedAltitude s3 = float_to_int (accAlt s3)"
    using accStage_present(1,3) [where inp = inp and cfg = cfg and baroAlt = baroAlt
        and s = s2] assms(2) c2
    unfolding s3 by simp_all
  obtain s4 where s4: "estimatorDebugStage inp s3 = Inr s4"
    and e4: "estimatedAltitude s4 = estimatedAltitude s3" "accAlt s4 = accAlt s3"
    using debugStage_returns [of inp s3] assms(3) c3 by auto
  have r: "calculateEstimatedAltitude cfg inp currentTimeUs s =
      Inr (estimatorVelocityStage cfg inp (currentTimeUs - previousTimeUs s) baroAlt accZ_tmp
             (imuResetAccelerationSum s4))"
    using assms(1) b a s4
    by (simp add: calculateEstimatedAltitude_def Let_def s2_def)
  show ?thesis
    unfolding r
    using e3 e4
    by (simp add: velocityStage_estimatedAltitude velocityStage_accAlt
          imuResetAccelerationSum_def)
qed

text \<open>C9 (amended): on an accepted tick on which the altitude debug mode is not selected
  or the sample count is not 0, without accelerometer, a ranging reading that is positive
  and within the band \<open>[sonarCfAltCm, sonarMaxAltWithTiltCm]\<close>, the band not of width 0,
  makes the estimate the blend \<open>sonarAlt * t + baroAlt * (1 - t)\<close> with
  \<open>t = (sonarMaxAltWithTiltCm - sonarAlt) / (sonarMaxAltWithTiltCm - sonarCfAltCm)\<close>, both
  evaluated in single precision (every operation rounded to nearest) and the result
  truncated to an integer; \<open>baroAlt\<close> is the barometric altitude of this tick, or 0 when
  the barometer is absent or not calibrated. At the lower bound \<open>t\<close> is 1 and the estimate
  is the reading, if the reading is at most \<open>2 ^ 24\<close>; at the upper bound \<open>t\<close> is 0 and
  the estimate is \<open>baroAlt\<close>, if its magnitude is at most \<open>2 ^ 24\<close>. A reading outside the
  band leaves the estimate at the barometric altitude when the barometer is present and
  calibrated, and unchanged otherwise. With the accelerometer present, the estimate is
  the accelerometer accumulator \<open>accAlt\<close>, whatever the ranging reading.\<close>

theorem sonar_blend_estimate:
  assumes "\<not> currentTimeUs - previousTimeUs s < 25000"
    and "\<not> (debugMode_ALTITUDE inp \<and> accSumCount s = 0)"
    and "baroAlt = (if sensors_BARO inp \<and> isBaroCalibrationComplete_226 inp
                    then baroCalculateAltitude inp else 0)"
    and "sonarAlt = sonarCalculateAltitude inp"
    and "t = float_sonarTransition sonarAlt (sonarCfAltCm inp) (sonarMaxAltWithTiltCm inp)"
  shows "\<exists>s'. calculateEstimatedAltitude cfg inp currentTimeUs s = Inr s' \<and>
      (\<not> sensors_ACC inp \<and> sonarInBand inp \<and>
       sonarCfAltCm inp \<noteq> sonarMaxAltWithTiltCm inp \<longrightarrow>
         estimatedAltitude s' = float_to_int (float_blend sonarAlt baroAlt t) \<and>
         (sonarAlt = sonarCfAltCm inp \<longrightarrow>
            t = 1 \<and> (sonarAlt \<le> 2 ^ 24 \<longrightarrow> estimatedAltitude s' = sonarAlt)) \<and>
         (sonarAlt = sonarMaxAltWithTiltCm inp \<longrightarrow>
            t = 0 \<and> (\<bar>baroAlt\<bar> \<le> 2 ^ 24 \<longrightarrow> estimatedAltitude s' = baroAlt))) \<and>
      (\<not> sensors_ACC inp \<and> \<not> sonarInBand inp \<longrightarrow>
         estimatedAltitude s' =
           (if sensors_BARO inp \<and> isBaroCalibrationComplete_226 inp
            then baroCalculateAltitude inp else estimatedAltitude s)) \<and>
      (sensors_ACC inp \<longrightarrow> estimatedAltitude s' = float_to_int (accAlt s'))"
proof (cases "sensors_ACC inp")
  case True
  then show ?thesis
    using accepted_tick_with_accelerometer [OF assms(1) True assms(2), of cfg] by auto
next
  case False
  from accepted_tick_without_accelerometer [OF assms(1) False assms(2), of cfg]
  obtain s' where r: "calculateEstimatedAltitude cfg inp currentTimeUs s = Inr s'"
    and e: "estimatedAltitude s' =
        (if sonarInBand inp
         then (if sonarCfAltCm inp \<noteq> sonarMaxAltWithTiltCm inp
               then float_to_int (float_blend sonarAlt baroAlt t)
               else float_nan_to_int cfg)
         else if sensors_BARO inp \<and> isBaroCalibrationComplete_226 inp then baroAlt
         else estimatedAltitude s)"
    unfolding Let_def assms(3-5) by blast
  have pos: "sonarInBand inp \<Longrightarrow> 0 < sonarAlt"
    by (simp add: sonarInBand_def assms(4))
  have lo: "sonarCfAltCm inp \<noteq> sonarMaxAltWithTiltCm inp \<Longrightarrow>
      sonarAlt = sonarCfAltCm inp \<Longrightarrow> t = 1"
    using float_sonarTransition_ends [of "sonarCfAltCm inp" "sonarMaxAltWithTiltCm inp"]
    by (simp add: assms(5))
  have hi: "sonarCfAltCm inp \<noteq> sonarMaxAltWithTiltCm inp \<Longrightarrow>
      sonarAlt = sonarMaxAltWithTiltCm inp \<Longrightarrow> t = 0"
    using float_sonarTransition_ends [of "sonarCfAltCm inp" "sonarMaxAltWithTiltCm inp"]
    by (simp add: assms(5))
  have b1: "0 < sonarAlt \<Longrightarrow> sonarAlt \<le> 2 ^ 24 \<Longrightarrow>
      float_to_int (float_blend sonarAlt baroAlt 1) = sonarAlt"
    using float_blend_ends(1) [of sonarAlt baroAlt] by (simp add: float_to_int_of_int)
  have b0: "\<bar>baroAlt\<bar> \<le> 2 ^ 24 \<Longrightarrow>
      float_to_int (float_blend sonarAlt baroAlt 0) = baroAlt"
    using float_blend_ends(2) [of baroAlt sonarAlt] by (simp add: float_to_int_of_int)
  show ?thesis
    using False r e pos lo hi b1 b0 assms(3) by auto
qed

theorem sonar_blend_estimate_witness:
  "(\<exists>s'. calculateEstimatedAltitude example_config
        (example_inputs\<lparr>sensors_SONAR := True, sonarCalculateAltitude := 150\<rparr>)
        30000 initial_state = Inr s' \<and> estimatedAltitude s' = 212) \<and>
   (\<exists>s'. calculateEstimatedAltitude example_config
        (example_inputs\<lparr>sensors_SONAR := True, sonarCalculateAltitude := 234,
           baroCalculateAltitude := 234\<rparr>)
        30000 initial_state = Inr s' \<and> estimatedAltitude s' = 233) \<and>
   (\<exists>s'. calculateEstimatedAltitude example_config
        (example_inputs\<lparr>sensors_SONAR := True, sonarCalculateAltitude := 100\<rparr>)
        30000 initial_state = Inr s' \<and> estimatedAltitude s' = 100) \<and>
   (\<exists>s'. calculateEstimatedAltitude example_config
        (example_inputs\<lparr>sensors_SONAR := True, sonarCalculateAltitude := 300\<rparr>)
        30000 initial_state = Inr s' \<and> estimatedAltitude s' = 400) \<and>
   (\<exists>s'. calculateEstimatedAltitude example_config
        (example_inputs\<lparr>sensors_SONAR := True, sonarCalculateAltitude := 350\<rparr>)
        30000 initial_state = Inr s' \<and> estimatedAltitude s' = 400) \<and>
   (\<exists>s'. calculateEstimatedAltitude example_config
        (example_inputs\<lparr>sensors_SONAR := True, sonarCalculateAltitude := 150,
           sensors_ACC := True\<rparr>)
        30000 initial_state = Inr s' \<and> estimatedAltitude s' = float_to_int (accAlt s'))"
proof -
  have t150: "float_sonarTransition 150 100 300 = 3 / 4"
    by (simp add: float_sonarTransition_def float_div_def int_to_float_def fl32_def binade_def
          expo_up.simps expo_down.simps lrintf_def)
  have v150: "float_to_int (float_blend 150 400 (3 / 4)) = 212"
    by (simp add: float_blend_def float_add_def float_mul_def float_sub_def int_to_float_def
          fl32_def binade_def expo_up.simps expo_down.simps lrintf_def float_to_int_def)
  have t234: "float_sonarTransition 234 100 300 = 11072963 / 33554432"
    by (simp add: float_sonarTransition_def float_div_def int_to_float_def fl32_def binade_def
          expo_up.simps expo_down.simps lrintf_def)
  have v234: "float_to_int (float_blend 234 234 (11072963 / 33554432)) = 233"
    by (simp add: float_blend_def float_add_def float_mul_def float_sub_def int_to_float_def
          fl32_def binade_def expo_up.simps expo_down.simps lrintf_def float_to_int_def)
  show ?thesis
    using sonar_blend_estimate
          [OF _ _ refl refl refl, of 30000 initial_state
              "example_inputs\<lparr>sensors_SONAR := True, sonarCalculateAltitude := 150\<rparr>"
              example_config]
        sonar_blend_estimate
          [OF _ _ refl refl refl, of 30000 initial_state
              "example_inputs\<lparr>sensors_SONAR := True, sonarCalculateAltitude := 234,
                 baroCalculateAltitude := 234\<rparr>"
              example_config]
        sonar_blend_estimate
          [OF _ _ refl refl refl, of 30000 initial_state
              "example_inputs\<lparr>sensors_SONAR := True, sonarCalculateAltitude := 100\<rparr>"
              example_config]
        sonar_blend_estimate
          [OF _ _ refl refl refl, of 30000 initial_state
              "example_inputs\<lparr>sensors_SONAR := True, sonarCalculateAltitude := 300\<rparr>"
              example_config]
        sonar_blend_estimate
          [OF _ _ refl refl refl, of 30000 initial_state
              "example_inputs\<lparr>sensors_SONAR := True, sonarCalculateAltitude := 350\<rparr>"
              example_config]
        sonar_blend_estimate
          [OF _ _ refl refl refl, of 30000 initial_state
              "example_inputs\<lparr>sensors_SONAR := True, sonarCalculateAltitude := 150,
                 sensors_ACC := True\<rparr>"
              example_config]
    by (auto simp: example_inputs_def initial_state_def sonarInBand_def t150 v150 t234 v234)
qed

text \<open>C9 as stated fails: barometer calibrated at 400, ranging reading 100 at the lower
  bound of the band [100, 300], accelerometer present without samples; the blend is 100,
  and the estimate published by the call is the accelerometer accumulator, 200.\<close>

theorem sonar_blend_overridden_by_accelerometer:
  "sonarInBand (example_inputs\<lparr>sensors_SONAR := True, sonarCalculateAltitude := 100,
        sensors_ACC := True\<rparr>) \<and>
   calculateEstimatedAltitude example_config
     (example_inputs\<lparr>sensors_SONAR := True, sonarCalculateAltitude := 100,
        sensors_ACC := True\<rparr>)
     30000 initial_state =
   Inr (initial_state\<lparr>previousTimeUs := 30000, estimatedAltitude := 200, accAlt := 200,
          lastBaroAlt := 400, vel := 745, estimatedVario := 740, errorVelocityI := - 36855,
          altHoldThrottleAdjustment := - 304\<rparr>) \<and>
   estimatedAltitude
     (initial_state\<lparr>previousTimeUs := 30000, estimatedAltitude := 200, accAlt := 200,
          lastBaroAlt := 400, vel := 745, estimatedVario := 740, errorVelocityI := - 36855,
          altHoldThrottleAdjustment := - 304\<rparr>) \<noteq>
   float_to_int (spec_blend 100 400 (spec_sonarTransition 100 100 300))"
  apply (simp add: sonarInBand_def spec_blend_def spec_sonarTransition_def
      calculateEstimatedAltitude_def estimatorBaroStage_def estimatorSonarStage_def
      estimatorAccStage_def estimatorDebugStage_def imuResetAccelerationSum_def
      example_inputs_def example_config_def initial_state_def
      float_div_def float_add_def float_sub_def float_mul_def int_to_float_def fl32_def
      binade_def expo_up.simps expo_down.simps lrintf_def float_to_int_def)
  apply (simp add: estimatorVelocityStage_def float_to_int_def constrain_def applyDeadband_def
      ABS_def lrintf_def)
  apply (simp add: calculateAltHoldThrottleAdjustment_def altHoldSetVel_def
      isThrustFacingDownwards_def constrain_def applyDeadband_def ABS_def div_trunc_def
      float_to_int_def Let_def)
  done

end
